theory Spec2Isabelle
  imports Complex_Main "HOL-Library.Multiset"
begin

section \<open>Values, errors and tables\<close>

text \<open>
  The dashboard \<^verbatim>\<open>app.py\<close> works on pandas tables. A cell of a table is a float, an
  integer, a string, a timestamp, a boolean, or missing (\<^verbatim>\<open>NaN\<close>, \<^verbatim>\<open>None\<close>, \<^verbatim>\<open>NaT\<close>).
  Floats are modelled by real numbers: rounding of IEEE arithmetic is not part of the
  model. Timestamps count nanoseconds, as pandas does.
\<close>

datatype cell = FloatV real | IntV int | StrV string | TimeV int | BoolV bool | NaV

datatype error = KeyError string | TypeError | ValueError

type_synonym series = "cell list"

type_synonym row = "string \<Rightarrow> cell"

text \<open>
  A \<^verbatim>\<open>DataFrame\<close> is its list of column labels and its rows; a row gives the cell under
  each label. Only labels listed in \<open>columns\<close> can be read (see \<open>getcol\<close>).
\<close>

record frame =
  columns :: "string list"
  rows :: "row list"

definition bind_err :: "error + 'a \<Rightarrow> ('a \<Rightarrow> error + 'b) \<Rightarrow> error + 'b" where
  "bind_err m f = (case m of Inl e \<Rightarrow> Inl e | Inr x \<Rightarrow> f x)"

fun mapE :: "('a \<Rightarrow> error + 'b) \<Rightarrow> 'a list \<Rightarrow> error + 'b list" where
  "mapE f [] = Inr []"
| "mapE f (x # xs) =
     (case f x of
        Inl e \<Rightarrow> Inl e
      | Inr y \<Rightarrow> (case mapE f xs of Inl e \<Rightarrow> Inl e | Inr ys \<Rightarrow> Inr (y # ys)))"

text \<open>\<^verbatim>\<open>pd.DataFrame()\<close> and \<^verbatim>\<open>df.empty\<close> (no column or no row).\<close>

definition empty_frame :: frame where
  "empty_frame = \<lparr>columns = [], rows = []\<rparr>"

definition df_empty :: "frame \<Rightarrow> bool" where
  "df_empty df = (columns df = [] \<or> rows df = [])"

text \<open>\<^verbatim>\<open>df[c]\<close>: the column, or \<^verbatim>\<open>KeyError\<close> when the table has no such label.\<close>

definition getcol :: "frame \<Rightarrow> string \<Rightarrow> error + series" where
  "getcol df c =
     (if c \<in> set (columns df) then Inr (map (\<lambda>r. r c) (rows df)) else Inl (KeyError c))"

text \<open>
  \<^verbatim>\<open>df[c] = values\<close>: replaces the column, or appends it as the last one. pandas raises
  \<^verbatim>\<open>ValueError\<close> when the number of values is not the number of rows.
\<close>

definition setcol :: "frame \<Rightarrow> string \<Rightarrow> series \<Rightarrow> error + frame" where
  "setcol df c vs =
     (if length vs = length (rows df)
      then Inr \<lparr>columns = (if c \<in> set (columns df) then columns df else columns df @ [c]),
               rows = map (\<lambda>(r, v). r(c := v)) (zip (rows df) vs)\<rparr>
      else Inl ValueError)"

text \<open>\<^verbatim>\<open>pd.DataFrame(list_of_dicts)\<close>: the labels are the keys in order of first appearance; a key
  a dict lacks gives a missing cell.\<close>

definition row_of_dict :: "(string \<times> cell) list \<Rightarrow> row" where
  "row_of_dict d = (\<lambda>k. case map_of d k of Some v \<Rightarrow> v | None \<Rightarrow> NaV)"

definition union_keys :: "(string \<times> cell) list list \<Rightarrow> string list" where
  "union_keys ds =
     foldl (\<lambda>acc k. if k \<in> set acc then acc else acc @ [k]) [] (concat (map (map fst) ds))"

definition DataFrame :: "(string \<times> cell) list list \<Rightarrow> frame" where
  "DataFrame ds = \<lparr>columns = union_keys ds, rows = map row_of_dict ds\<rparr>"

text \<open>\<^verbatim>\<open>df[mask]\<close>: the rows whose mask entry is true, in their order.\<close>

definition select_rows :: "frame \<Rightarrow> bool list \<Rightarrow> frame" where
  "select_rows df keep = df\<lparr>rows := map fst (filter snd (zip (rows df) keep))\<rparr>"

subsection \<open>Elementwise arithmetic\<close>

text \<open>
  The numeric reading of a cell: a number, missing (\<open>None\<close>), or \<^verbatim>\<open>TypeError\<close> for a
  string or a timestamp. Arithmetic on a missing value gives a missing value.
\<close>

definition as_num :: "cell \<Rightarrow> error + real option" where
  "as_num c =
     (case c of
        FloatV x \<Rightarrow> Inr (Some x)
      | IntV k \<Rightarrow> Inr (Some (real_of_int k))
      | BoolV b \<Rightarrow> Inr (Some (if b then 1 else 0))
      | NaV \<Rightarrow> Inr None
      | StrV s \<Rightarrow> Inl TypeError
      | TimeV t \<Rightarrow> Inl TypeError)"

definition float_cell :: "real option \<Rightarrow> cell" where
  "float_cell v = (case v of None \<Rightarrow> NaV | Some x \<Rightarrow> FloatV x)"

definition lift1 :: "(real \<Rightarrow> real) \<Rightarrow> cell \<Rightarrow> error + cell" where
  "lift1 f c = bind_err (as_num c) (\<lambda>v. Inr (float_cell (map_option f v)))"

definition lift2 :: "(real \<Rightarrow> real \<Rightarrow> real) \<Rightarrow> cell \<Rightarrow> cell \<Rightarrow> error + cell" where
  "lift2 f a b =
     bind_err (as_num a) (\<lambda>x. bind_err (as_num b) (\<lambda>y.
       Inr (float_cell (case x of None \<Rightarrow> None | Some u \<Rightarrow> map_option (f u) y))))"

definition series1 :: "(real \<Rightarrow> real) \<Rightarrow> series \<Rightarrow> error + series" where
  "series1 f xs = mapE (lift1 f) xs"

definition series2 :: "(real \<Rightarrow> real \<Rightarrow> real) \<Rightarrow> series \<Rightarrow> series \<Rightarrow> error + series" where
  "series2 f xs ys = mapE (\<lambda>(a, b). lift2 f a b) (zip xs ys)"

text \<open>A comparison with a number: false on a missing value.\<close>

definition cmp_mask :: "(real \<Rightarrow> bool) \<Rightarrow> series \<Rightarrow> error + bool list" where
  "cmp_mask P xs =
     mapE (\<lambda>c. bind_err (as_num c) (\<lambda>v. Inr (case v of None \<Rightarrow> False | Some x \<Rightarrow> P x))) xs"

section \<open>The scoring function\<close>

text \<open>
  \<^verbatim>\<open>calculate_priority(df)\<close>, lines 68 to 75. It writes the column \<^verbatim>\<open>payer_risk\<close> into the
  table it is given and returns the clipped scores.
\<close>

definition payer_risk :: "(string \<times> real) list" where
  "payer_risk =
     [(''Medicare'', 0.2), (''Blue Cross'', 0.4), (''Aetna'', 0.6), (''UnitedHealthcare'', 0.5)]"

text \<open>\<^verbatim>\<open>Series.map(dict)\<close>: a value that is not a key maps to \<^verbatim>\<open>NaN\<close>.\<close>

definition map_dict :: "(string \<times> real) list \<Rightarrow> cell \<Rightarrow> cell" where
  "map_dict d c =
     (case c of
        StrV s \<Rightarrow> (case map_of d s of Some x \<Rightarrow> FloatV x | None \<Rightarrow> NaV)
      | _ \<Rightarrow> NaV)"

definition fillna :: "real \<Rightarrow> cell \<Rightarrow> cell" where
  "fillna v c = (case c of NaV \<Rightarrow> FloatV v | _ \<Rightarrow> c)"

definition calculate_priority :: "frame \<Rightarrow> error + (frame \<times> series)" where
  "calculate_priority df =
     bind_err (getcol df ''payer_name'') (\<lambda>names.
     bind_err (setcol df ''payer_risk'' (map (\<lambda>c. fillna 0.3 (map_dict payer_risk c)) names)) (\<lambda>df1.
     bind_err (getcol df1 ''status'') (\<lambda>status.
     let risk = map (\<lambda>c. FloatV (if c = StrV ''denied'' then 1.0 else 0.5)) status in
     bind_err (getcol df1 ''aging_days'') (\<lambda>aging.
     bind_err (series1 (\<lambda>x. x / 90) aging) (\<lambda>q.
     bind_err (series1 (\<lambda>x. x * 0.4) q) (\<lambda>t1.
     bind_err (getcol df1 ''payer_risk'') (\<lambda>pr.
     bind_err (series1 (\<lambda>x. x * 0.3) pr) (\<lambda>t2.
     bind_err (series2 (+) t1 t2) (\<lambda>s12.
     bind_err (series1 (\<lambda>x. x * 0.3) risk) (\<lambda>t3.
     bind_err (series2 (+) s12 t3) (\<lambda>score.
     bind_err (series1 (\<lambda>x. min 1 (max 0 x)) score) (\<lambda>clipped.
     Inr (df1, clipped)))))))))))))"

section \<open>The outside world\<close>

text \<open>
  What the script reads from outside is an input of the model: the configured API key,
  the answer of the one HTTP request, two readings of the clock (\<^verbatim>\<open>datetime.now()\<close> at
  line 43 and \<^verbatim>\<open>pd.to_datetime("today")\<close> at lines 31 and 63), the successive draws of
  numpy's random generator (each a number in \<open>[0, 1)\<close>), pandas' parser of date strings,
  and numpy's \<^verbatim>\<open>argsort\<close> with its default \<^verbatim>\<open>kind="quicksort"\<close>, which
  \<^verbatim>\<open>sort_values\<close> calls.
\<close>

record request =
  url :: string
  authorization :: string
  start_param :: int
  end_param :: int
  limit_param :: nat
  timeout :: nat

datatype payload = NotJson | JsonObject "(string \<times> cell) list list option"

datatype http_result = Failed string | Response nat payload

record env =
  api_key :: "string option"
  http_get :: "request \<Rightarrow> http_result"
  clock_now :: int
  clock_today :: int
  rng :: "nat \<Rightarrow> real"
  parse_date :: "string \<Rightarrow> int option"
  argsort :: "real list \<Rightarrow> nat list"

datatype ui =
  Info string | ErrorMsg string | WarningMsg string | Metric string cell
  | ShowTable frame | BarChart "(cell \<times> cell) list"

record fetch_result =
  table :: "error + frame"
  shown :: "ui list"
  sent :: "request list"

subsection \<open>Time\<close>

definition day :: int where
  "day = 86400000000000"

text \<open>\<^verbatim>\<open>pd.date_range(start, end, freq="D")\<close>: \<open>start\<close>, then every day after it up to \<open>end\<close>.\<close>

definition date_range :: "int \<Rightarrow> int \<Rightarrow> int list" where
  "date_range s e =
     (if e < s then [] else map (\<lambda>k. s + int k * day) [0..<nat ((e - s) div day) + 1])"

definition to_datetime :: "(string \<Rightarrow> int option) \<Rightarrow> cell \<Rightarrow> error + cell" where
  "to_datetime parse c =
     (case c of
        TimeV t \<Rightarrow> Inr (TimeV t)
      | StrV s \<Rightarrow> (case parse s of Some t \<Rightarrow> Inr (TimeV t) | None \<Rightarrow> Inl ValueError)
      | NaV \<Rightarrow> Inr NaV
      | IntV k \<Rightarrow> Inr (TimeV k)
      | FloatV x \<Rightarrow> Inr (TimeV \<lfloor>x\<rfloor>)
      | BoolV b \<Rightarrow> Inl TypeError)"

text \<open>\<^verbatim>\<open>(today - due).dt.days\<close>: whole days, rounded down; missing for a missing date.\<close>

definition days_since :: "int \<Rightarrow> cell \<Rightarrow> cell" where
  "days_since today c = (case c of TimeV t \<Rightarrow> IntV ((today - t) div day) | _ \<Rightarrow> NaV)"

subsection \<open>Random draws\<close>

definition randint :: "int \<Rightarrow> int \<Rightarrow> real \<Rightarrow> int" where
  "randint lo hi u = lo + \<lfloor>u * real_of_int (hi - lo)\<rfloor>"

definition uniform :: "real \<Rightarrow> real \<Rightarrow> real \<Rightarrow> real" where
  "uniform lo hi u = lo + (hi - lo) * u"

text \<open>\<^verbatim>\<open>np.random.choice(xs)\<close> takes the element at a uniformly drawn index.\<close>

definition choice :: "'a list \<Rightarrow> real \<Rightarrow> 'a" where
  "choice xs u = xs ! nat \<lfloor>u * real (length xs)\<rfloor>"

text \<open>
  \<^verbatim>\<open>np.random.choice(xs, p=ps)\<close> inverts the cumulative distribution at a uniform draw:
  the first element whose cumulated probability exceeds the draw (the default \<open>d\<close> when
  none does, which no draw below the total mass reaches).
\<close>

fun choice_p :: "'a \<Rightarrow> ('a \<times> real) list \<Rightarrow> real \<Rightarrow> 'a" where
  "choice_p d [] u = d"
| "choice_p d ((x, p) # xs) u = (if u < p then x else choice_p d xs (u - p))"

subsection \<open>Printing numbers\<close>

fun show_nat :: "nat \<Rightarrow> string" where
  "show_nat n =
     (if n < 10 then [char_of (48 + n)]
      else show_nat (n div 10) @ [char_of (48 + n mod 10)])"

definition show_int :: "int \<Rightarrow> string" where
  "show_int k = (if k < 0 then ''-'' @ show_nat (nat (- k)) else show_nat (nat k))"

definition error_text :: "error \<Rightarrow> string" where
  "error_text e =
     (case e of
        KeyError c \<Rightarrow> [CHR 0x27] @ c @ [CHR 0x27]
      | TypeError \<Rightarrow> ''TypeError''
      | ValueError \<Rightarrow> ''ValueError'')"

section \<open>Fetching the table\<close>

subsection \<open>Mock mode, lines 41 to 66\<close>

text \<open>Messages are kept without their emoji.\<close>

definition payers :: "string list" where
  "payers = [''Medicare'', ''Blue Cross'', ''Aetna'', ''UnitedHealthcare'']"

definition reasons :: "string list" where
  "reasons =
     [''CO-45: Charge exceeds fee'', ''PR-96: Non-covered'', ''CO-97: Duplicate'',
      ''CO-16: Missing info'']"

definition status_weights :: "(string \<times> real) list" where
  "status_weights = [(''open'', 0.4), (''partial'', 0.2), (''denied'', 0.3), (''paid'', 0.1)]"

text \<open>
  One pass of the loop body, lines 50 to 61: the record for the \<open>i\<close>-th date, built from
  the draws \<open>g n\<close>, \<open>g (n + 1)\<close>, ... in the order Python evaluates them, and the index of
  the next unused draw. The draw for the denial reason is made only when the draw
  before it exceeds 0.7.
\<close>

definition mock_record :: "(nat \<Rightarrow> real) \<Rightarrow> nat \<Rightarrow> nat \<Rightarrow> int \<Rightarrow> (string \<times> cell) list \<times> nat" where
  "mock_record g n i date =
     (let patient = randint 1000 2000 (g n);
          payer = choice payers (g (n + 1));
          amount_due = uniform 100 2000 (g (n + 2));
          amount_paid = uniform 0 1 (g (n + 3)) * uniform 100 2000 (g (n + 4));
          status = choice_p ''paid'' status_weights (g (n + 5));
          last_followup = date - randint 0 30 (g (n + 6)) * day;
          has_reason = (g (n + 7) > 0.7);
          denial_reason = (if has_reason then StrV (choice reasons (g (n + 8))) else NaV);
          m = (if has_reason then n + 9 else n + 8);
          notes = (if g m > 0.6 then ''Follow-up pending'' else [])
      in ([(''invoice_id'', StrV (''INV-'' @ show_nat (i + 1000))),
           (''patient_id'', StrV (''PT-'' @ show_int patient)),
           (''payer_name'', StrV payer),
           (''amount_due'', FloatV amount_due),
           (''amount_paid'', FloatV amount_paid),
           (''status'', StrV status),
           (''due_date'', TimeV date),
           (''last_followup'', TimeV last_followup),
           (''denial_reason'', denial_reason),
           (''notes'', StrV notes)], m + 1))"

fun mock_loop :: "(nat \<Rightarrow> real) \<Rightarrow> nat \<Rightarrow> nat \<Rightarrow> int list \<Rightarrow> (string \<times> cell) list list" where
  "mock_loop g n i [] = []"
| "mock_loop g n i (d # ds) =
     (case mock_record g n i d of (rec, n') \<Rightarrow> rec # mock_loop g n' (Suc i) ds)"

definition add_aging_days :: "env \<Rightarrow> frame \<Rightarrow> error + frame" where
  "add_aging_days e df =
     bind_err (getcol df ''due_date'') (\<lambda>due.
     bind_err (mapE (to_datetime (parse_date e)) due) (\<lambda>ts.
     setcol df ''aging_days'' (map (days_since (clock_today e)) ts)))"

definition add_outstanding :: "frame \<Rightarrow> error + frame" where
  "add_outstanding df =
     bind_err (getcol df ''amount_due'') (\<lambda>due.
     bind_err (getcol df ''amount_paid'') (\<lambda>paid.
     bind_err (series2 (-) due paid) (\<lambda>out.
     setcol df ''outstanding'' out)))"

definition add_priority_score :: "frame \<Rightarrow> error + frame" where
  "add_priority_score df =
     bind_err (calculate_priority df) (\<lambda>(df1, score). setcol df1 ''priority_score'' score)"

text \<open>Lines 63 to 65: the derived fields of the mock table.\<close>

definition derive_fields :: "env \<Rightarrow> frame \<Rightarrow> error + frame" where
  "derive_fields e df =
     bind_err (add_aging_days e df) (\<lambda>df1.
     bind_err (add_outstanding df1) add_priority_score)"

definition fetch_mock :: "env \<Rightarrow> fetch_result" where
  "fetch_mock e =
     (let end_date_mock = clock_now e;
          start_date_mock = end_date_mock - 90 * day;
          dates = date_range start_date_mock end_date_mock;
          mock_data = mock_loop (rng e) 0 0 dates;
          df = DataFrame mock_data
      in \<lparr>table = derive_fields e df,
          shown = [Info ''Demo Mode: Using sample healthcare data. Add NIKO_API_KEY to go live.''],
          sent = []\<rparr>)"

subsection \<open>Remote mode, lines 22 to 39\<close>

definition api_request :: "string \<Rightarrow> int \<Rightarrow> int \<Rightarrow> request" where
  "api_request k s e =
     \<lparr>url = ''https://api.nikohealth.com/v2/payments'', authorization = ''Bearer '' @ k,
      start_param = s, end_param = e, limit_param = 1000, timeout = 20\<rparr>"

text \<open>Lines 29 to 33, inside the \<^verbatim>\<open>try\<close>: any exception there is caught at line 37.\<close>

definition add_denial_risk :: "env \<Rightarrow> frame \<Rightarrow> error + frame" where
  "add_denial_risk e df =
     bind_err (getcol df ''status'') (\<lambda>status.
     let u = uniform 0.1 0.8 (rng e 0) in
     setcol df ''denial_risk'' (map (\<lambda>c. FloatV (if c = StrV ''denied'' then 1.0 else u)) status))"

definition parse_response :: "env \<Rightarrow> payload \<Rightarrow> error + frame" where
  "parse_response e body =
     (case body of
        NotJson \<Rightarrow> Inl ValueError
      | JsonObject d \<Rightarrow>
          (let df = DataFrame (case d of None \<Rightarrow> [] | Some recs \<Rightarrow> recs)
           in bind_err (add_aging_days e df) (add_denial_risk e)))"

definition fetch_real :: "env \<Rightarrow> string \<Rightarrow> int \<Rightarrow> int \<Rightarrow> fetch_result" where
  "fetch_real e k s_date e_date =
     (let req = api_request k s_date e_date in
      case http_get e req of
        Failed msg \<Rightarrow>
          \<lparr>table = Inr empty_frame, shown = [ErrorMsg (''Connection issue: '' @ msg)], sent = [req]\<rparr>
      | Response code body \<Rightarrow>
          if code = 200
          then (case parse_response e body of
                  Inr df \<Rightarrow> \<lparr>table = Inr df, shown = [], sent = [req]\<rparr>
                | Inl err \<Rightarrow>
                    \<lparr>table = Inr empty_frame,
                     shown = [ErrorMsg (''Connection issue: '' @ error_text err)], sent = [req]\<rparr>)
          else \<lparr>table = Inr empty_frame, shown = [ErrorMsg (''API Error: '' @ show_nat code)],
                sent = [req]\<rparr>)"

text \<open>\<^verbatim>\<open>fetch_ar_data(start_date, end_date)\<close>; \<^verbatim>\<open>USE_REAL_API\<close> is \<^verbatim>\<open>API_KEY is not None\<close>.\<close>

definition fetch_ar_data :: "env \<Rightarrow> int \<Rightarrow> int \<Rightarrow> fetch_result" where
  "fetch_ar_data e s_date e_date =
     (case api_key e of Some k \<Rightarrow> fetch_real e k s_date e_date | None \<Rightarrow> fetch_mock e)"

section \<open>The dashboard, lines 78 to 130\<close>

record inputs =
  start_date :: int
  end_date :: int
  min_priority :: real

text \<open>The default of the slider at line 82.\<close>

definition min_priority_default :: real where
  "min_priority_default = 0.3"

datatype outcome = Stopped | Raised error | Rendered

subsection \<open>Threshold filter, lines 89 and 90\<close>

definition threshold_filter :: "frame \<Rightarrow> real \<Rightarrow> error + frame" where
  "threshold_filter df m =
     bind_err (getcol df ''priority_score'') (\<lambda>score.
     bind_err (cmp_mask (\<lambda>x. m \<le> x) score) (\<lambda>keep1.
     let df1 = select_rows df keep1 in
     bind_err (getcol df1 ''outstanding'') (\<lambda>out.
     bind_err (cmp_mask (\<lambda>x. 0 < x) out) (\<lambda>keep2.
     Inr (select_rows df1 keep2)))))"

subsection \<open>Key metrics, lines 94 to 106\<close>

text \<open>\<^verbatim>\<open>Series.sum()\<close> and \<^verbatim>\<open>Series.mean()\<close> skip missing values; the mean of no value is
  \<^verbatim>\<open>NaN\<close>, returned without an exception.\<close>

definition series_sum :: "series \<Rightarrow> error + cell" where
  "series_sum xs =
     bind_err (mapE as_num xs) (\<lambda>vs. Inr (FloatV (sum_list (List.map_filter id vs))))"

definition series_mean :: "series \<Rightarrow> error + cell" where
  "series_mean xs =
     bind_err (mapE as_num xs) (\<lambda>vs.
       let ys = List.map_filter id vs
       in Inr (if ys = [] then NaV else FloatV (sum_list ys / real (length ys))))"

text \<open>The four metrics are shown with their values; the formatting of the numbers is left
  out.\<close>

definition key_metrics :: "frame \<Rightarrow> error + ui list" where
  "key_metrics df =
     bind_err (getcol df ''outstanding'') (\<lambda>out.
     bind_err (series_sum out) (\<lambda>total_ar.
     let total_accounts = IntV (int (length (rows df))) in
     bind_err (getcol df ''aging_days'') (\<lambda>aging.
     bind_err (series_mean aging) (\<lambda>avg_dso.
     bind_err (getcol df ''outstanding'') (\<lambda>out2.
     bind_err (series1 (\<lambda>x. x * 0.8) out2) (\<lambda>recoverable.
     bind_err (series_sum recoverable) (\<lambda>recovery_potential.
     Inr [Metric ''Total AR'' total_ar, Metric ''Open Accounts'' total_accounts,
          Metric ''Avg DSO (Days)'' avg_dso,
          Metric ''Recovery Potential'' recovery_potential])))))))"

subsection \<open>The prioritized accounts table, lines 112 to 118\<close>

text \<open>
  \<^verbatim>\<open>df.sort_values(c, ascending=False)\<close> as pandas' \<^verbatim>\<open>nargsort\<close> computes it: the rows with
  a missing key go last; the others are reversed, ordered by \<^verbatim>\<open>argsort\<close> of their keys,
  and the resulting order is reversed again. The key column is numeric in this program;
  a key that is text or a timestamp is reported as \<^verbatim>\<open>TypeError\<close>.
\<close>

definition sort_values_desc :: "(real list \<Rightarrow> nat list) \<Rightarrow> frame \<Rightarrow> string \<Rightarrow> error + frame" where
  "sort_values_desc srt df c =
     bind_err (getcol df c) (\<lambda>ks.
     bind_err (mapE as_num ks) (\<lambda>vs.
       let idx = zip vs [0..<length vs];
           non_nan = List.map_filter (\<lambda>(v, i). map_option (\<lambda>x. (x, i)) v) idx;
           nan_idx = map snd (filter (\<lambda>(v, i). v = None) idx);
           rev_nn = rev non_nan;
           order = srt (map fst rev_nn);
           indexer = rev (map (\<lambda>j. snd (rev_nn ! j)) order) @ nan_idx
       in Inr (df\<lparr>rows := map (\<lambda>i. rows df ! i) indexer\<rparr>)))"

text \<open>\<^verbatim>\<open>Series.round(0)\<close> rounds to the nearest integer, a half to the even neighbour.\<close>

definition round_half_even :: "real \<Rightarrow> int" where
  "round_half_even x =
     (let f = \<lfloor>x\<rfloor>; d = x - real_of_int f
      in if d < 1 / 2 then f else if 1 / 2 < d then f + 1 else if even f then f else f + 1)"

text \<open>\<^verbatim>\<open>astype(int)\<close> truncates a float; it raises on a missing value and on text.\<close>

definition astype_int :: "cell \<Rightarrow> error + cell" where
  "astype_int c =
     (case c of
        FloatV x \<Rightarrow> Inr (IntV (if 0 \<le> x then \<lfloor>x\<rfloor> else \<lceil>x\<rceil>))
      | IntV k \<Rightarrow> Inr (IntV k)
      | BoolV b \<Rightarrow> Inr (IntV (if b then 1 else 0))
      | TimeV t \<Rightarrow> Inr (IntV t)
      | NaV \<Rightarrow> Inl ValueError
      | StrV s \<Rightarrow> Inl ValueError)"

text \<open>\<^verbatim>\<open>pd.cut(x, bins=[0, 30, 60, 90, inf], labels=[...])\<close>: intervals open on the left and
  closed on the right; a value in none of them has no bucket.\<close>

definition bucket_label :: "real \<Rightarrow> cell" where
  "bucket_label x =
     (if 0 < x \<and> x \<le> 30 then StrV ''0-30''
      else if 30 < x \<and> x \<le> 60 then StrV ''31-60''
      else if 60 < x \<and> x \<le> 90 then StrV ''61-90''
      else if 90 < x then StrV ''90+''
      else NaV)"

definition cut_aging :: "cell \<Rightarrow> error + cell" where
  "cut_aging c =
     bind_err (as_num c) (\<lambda>v. Inr (case v of None \<Rightarrow> NaV | Some x \<Rightarrow> bucket_label x))"

definition action_label :: "bool \<Rightarrow> cell" where
  "action_label old = StrV (if old then ''Escalate to Collector'' else ''Auto-Followup Email'')"

definition priority_table :: "(real list \<Rightarrow> nat list) \<Rightarrow> frame \<Rightarrow> error + frame" where
  "priority_table srt df =
     bind_err (sort_values_desc srt df ''priority_score'') (\<lambda>sorted_df.
     let top = sorted_df\<lparr>rows := take 10 (rows sorted_df)\<rparr> in
     bind_err (getcol top ''priority_score'') (\<lambda>score.
     bind_err (series1 (\<lambda>x. x * 100) score) (\<lambda>scaled.
     bind_err (series1 (\<lambda>x. real_of_int (round_half_even x)) scaled) (\<lambda>rounded.
     bind_err (mapE astype_int rounded) (\<lambda>percent.
     bind_err (setcol top ''priority_score'' percent) (\<lambda>df1.
     bind_err (getcol df1 ''aging_days'') (\<lambda>aging.
     bind_err (mapE cut_aging aging) (\<lambda>buckets.
     bind_err (setcol df1 ''aging_bucket'' buckets) (\<lambda>df2.
     bind_err (getcol df2 ''aging_days'') (\<lambda>aging2.
     bind_err (cmp_mask (\<lambda>x. 60 < x) aging2) (\<lambda>old.
     setcol df2 ''next_action'' (map action_label old))))))))))))"

definition display_cols :: "string list" where
  "display_cols =
     [''invoice_id'', ''patient_id'', ''payer_name'', ''outstanding'', ''aging_days'',
      ''priority_score'', ''next_action'', ''denial_reason'']"

text \<open>\<^verbatim>\<open>df[cols]\<close>: the table restricted to the listed columns; \<^verbatim>\<open>KeyError\<close> when one is
  missing.\<close>

definition select_columns :: "frame \<Rightarrow> string list \<Rightarrow> error + frame" where
  "select_columns df cs =
     (case filter (\<lambda>c. c \<notin> set (columns df)) cs of
        [] \<Rightarrow> Inr \<lparr>columns = cs, rows = map (\<lambda>r k. if k \<in> set cs then r k else NaV) (rows df)\<rparr>
      | c # _ \<Rightarrow> Inl (KeyError c))"

subsection \<open>Aging breakdown, line 125\<close>

fun str_less :: "string \<Rightarrow> string \<Rightarrow> bool" where
  "str_less [] [] = False"
| "str_less [] (y # ys) = True"
| "str_less (x # xs) [] = False"
| "str_less (x # xs) (y # ys) =
     (if (of_char x :: nat) < of_char y then True
      else if (of_char y :: nat) < of_char x then False
      else str_less xs ys)"

text \<open>
  The order of group keys. Keys of one type are ordered as Python orders them; between
  keys of different types, where pandas gives no sorted order, numbers come first,
  then timestamps, then text.
\<close>

definition key_rank :: "cell \<Rightarrow> nat" where
  "key_rank c = (case c of StrV s \<Rightarrow> 2 | TimeV t \<Rightarrow> 1 | _ \<Rightarrow> 0)"

definition key_less :: "cell \<Rightarrow> cell \<Rightarrow> bool" where
  "key_less a b =
     (case (a, b) of
        (StrV s, StrV t) \<Rightarrow> str_less s t
      | (TimeV s, TimeV t) \<Rightarrow> s < t
      | _ \<Rightarrow>
         (if key_rank a = 0 \<and> key_rank b = 0
          then (case (as_num a, as_num b) of (Inr (Some x), Inr (Some y)) \<Rightarrow> x < y | _ \<Rightarrow> False)
          else key_rank a < key_rank b))"

fun insert_key :: "cell \<Rightarrow> cell list \<Rightarrow> cell list" where
  "insert_key k [] = [k]"
| "insert_key k (x # xs) =
     (if k = x then x # xs else if key_less k x then k # x # xs else x # insert_key k xs)"

text \<open>
  \<^verbatim>\<open>groupby(keys)[values].sum()\<close>: one group per distinct key that is not missing, in key
  order, with the sum of its values.
\<close>

definition groupby_sum :: "series \<Rightarrow> series \<Rightarrow> error + (cell \<times> cell) list" where
  "groupby_sum keys vals =
     bind_err (mapE as_num vals) (\<lambda>nums.
       let groups = foldr insert_key (filter (\<lambda>k. k \<noteq> NaV) keys) []
       in Inr (map (\<lambda>k. (k, FloatV (sum_list (List.map_filter id
                 (map snd (filter (\<lambda>(k', v). k' = k) (zip keys nums))))))) groups))"

definition aging_pivot :: "frame \<Rightarrow> error + (cell \<times> cell) list" where
  "aging_pivot df =
     bind_err (getcol df ''aging_bucket'') (\<lambda>keys.
     bind_err (getcol df ''outstanding'') (\<lambda>vals.
     groupby_sum keys vals))"

subsection \<open>The script after the fetch, lines 85 to 130\<close>

text \<open>
  What is shown, in order, and how the run ends: stopped by \<^verbatim>\<open>st.stop()\<close>, by an uncaught
  exception, or with the aging chart drawn. Titles and separators are left out, and so
  are the lines after the aging chart (priority tiers, alerts, export).
\<close>

definition after_fetch :: "(real list \<Rightarrow> nat list) \<Rightarrow> frame \<Rightarrow> real \<Rightarrow> ui list \<times> outcome" where
  "after_fetch srt df m =
     (if df_empty df then ([WarningMsg ''No data in range. Adjust filters.''], Stopped)
      else case threshold_filter df m of
        Inl e \<Rightarrow> ([], Raised e)
      | Inr fdf \<Rightarrow>
         (case key_metrics fdf of
            Inl e \<Rightarrow> ([], Raised e)
          | Inr metrics \<Rightarrow>
             (case bind_err (priority_table srt fdf) (\<lambda>pdf. select_columns pdf display_cols) of
                Inl e \<Rightarrow> (metrics, Raised e)
              | Inr tbl \<Rightarrow>
                 (case aging_pivot fdf of
                    Inl e \<Rightarrow> (metrics @ [ShowTable tbl], Raised e)
                  | Inr pivot \<Rightarrow> (metrics @ [ShowTable tbl, BarChart pivot], Rendered)))))"

definition dashboard :: "env \<Rightarrow> inputs \<Rightarrow> ui list \<times> outcome" where
  "dashboard e inp =
     (let fetched = fetch_ar_data e (start_date inp) (end_date inp) in
      case table fetched of
        Inl err \<Rightarrow> (shown fetched, Raised err)
      | Inr df \<Rightarrow>
          (case after_fetch (argsort e) df (min_priority inp) of
             (out, how) \<Rightarrow> (shown fetched @ out, how)))"

section \<open>Vocabulary of the statements\<close>

text \<open>Readings of a cell of a known type, and the scoring formula as the specification
  words it.\<close>

definition is_num :: "cell \<Rightarrow> bool" where
  "is_num c = (case c of FloatV x \<Rightarrow> True | IntV k \<Rightarrow> True | _ \<Rightarrow> False)"

definition num_of :: "cell \<Rightarrow> real" where
  "num_of c = (case c of FloatV x \<Rightarrow> x | IntV k \<Rightarrow> real_of_int k | _ \<Rightarrow> 0)"

definition is_str :: "cell \<Rightarrow> bool" where
  "is_str c = (case c of StrV s \<Rightarrow> True | _ \<Rightarrow> False)"

definition str_of :: "cell \<Rightarrow> string" where
  "str_of c = (case c of StrV s \<Rightarrow> s | _ \<Rightarrow> [])"

definition payer_risk_spec :: "string \<Rightarrow> real" where
  "payer_risk_spec p =
     (if p = ''Medicare'' then 0.2 else if p = ''Blue Cross'' then 0.4
      else if p = ''Aetna'' then 0.6 else if p = ''UnitedHealthcare'' then 0.5 else 0.3)"

definition risk_boost :: "string \<Rightarrow> real" where
  "risk_boost s = (if s = ''denied'' then 1.0 else 0.5)"

definition clamp01 :: "real \<Rightarrow> real" where
  "clamp01 x = max 0 (min 1 x)"

definition priority_score_spec :: "real \<Rightarrow> string \<Rightarrow> string \<Rightarrow> real" where
  "priority_score_spec a p s =
     clamp01 (0.4 * (a / 90) + 0.3 * payer_risk_spec p + 0.3 * risk_boost s)"

definition is_time :: "cell \<Rightarrow> bool" where
  "is_time c = (case c of TimeV t \<Rightarrow> True | _ \<Rightarrow> False)"

definition time_of :: "cell \<Rightarrow> int" where
  "time_of c = (case c of TimeV t \<Rightarrow> t | _ \<Rightarrow> 0)"

text \<open>A record as a data source hands it over, before the derived fields.\<close>

definition raw_record :: "row \<Rightarrow> bool" where
  "raw_record r =
     (is_time (r ''due_date'') \<and> is_num (r ''amount_due'') \<and> is_num (r ''amount_paid'')
      \<and> is_str (r ''payer_name'') \<and> is_str (r ''status''))"

definition raw_columns :: "string list" where
  "raw_columns = [''due_date'', ''amount_due'', ''amount_paid'', ''payer_name'', ''status'']"

text \<open>The derived fields of one record, as lines 63 to 65 and 71 to 75 compute them.\<close>

definition aging_of :: "env \<Rightarrow> row \<Rightarrow> int" where
  "aging_of e r = (clock_today e - time_of (r ''due_date'')) div day"

definition derived_row :: "env \<Rightarrow> row \<Rightarrow> row" where
  "derived_row e r =
     r(''aging_days'' := IntV (aging_of e r),
       ''outstanding'' := FloatV (num_of (r ''amount_due'') - num_of (r ''amount_paid'')),
       ''payer_risk'' := FloatV (payer_risk_spec (str_of (r ''payer_name''))),
       ''priority_score'' := FloatV (priority_score_spec (real_of_int (aging_of e r))
                                (str_of (r ''payer_name'')) (str_of (r ''status''))))"

definition add_columns :: "string list \<Rightarrow> string list \<Rightarrow> string list" where
  "add_columns cs new = foldl (\<lambda>acc c. if c \<in> set acc then acc else acc @ [c]) cs new"

definition derived_columns :: "string list" where
  "derived_columns = [''aging_days'', ''outstanding'', ''payer_risk'', ''priority_score'']"

text \<open>The table with the column \<open>c\<close> set, in every record \<open>r\<close>, to \<open>f r\<close>.\<close>

definition with_column :: "frame \<Rightarrow> string \<Rightarrow> (row \<Rightarrow> cell) \<Rightarrow> frame" where
  "with_column df c f =
     \<lparr>columns = (if c \<in> set (columns df) then columns df else columns df @ [c]),
      rows = map (\<lambda>r. r(c := f r)) (rows df)\<rparr>"

definition derived_frame :: "env \<Rightarrow> frame \<Rightarrow> frame" where
  "derived_frame e df =
     \<lparr>columns = add_columns (columns df) derived_columns, rows = map (derived_row e) (rows df)\<rparr>"

text \<open>A table of scoring inputs: aging in days, payer and status of each record.\<close>

definition score_input :: "(int \<times> string \<times> string) list \<Rightarrow> frame" where
  "score_input recs =
     \<lparr>columns = [''aging_days'', ''payer_name'', ''status''],
      rows = map (\<lambda>(a, p, s). row_of_dict
               [(''aging_days'', IntV a), (''payer_name'', StrV p), (''status'', StrV s)]) recs\<rparr>"

definition scoring_example :: frame where
  "scoring_example =
     \<lparr>columns = [''aging_days'', ''payer_name'', ''status''],
      rows = [row_of_dict [(''aging_days'', IntV 90), (''payer_name'', StrV ''Medicare''), (''status'', StrV ''open'')],
              row_of_dict [(''aging_days'', IntV 270), (''payer_name'', StrV ''Aetna''), (''status'', StrV ''denied'')]]\<rparr>"


text \<open>The keys of a mock record, and the raw mock table of a run (lines 43 to 62).\<close>

definition mock_keys :: "string list" where
  "mock_keys = [''invoice_id'', ''patient_id'', ''payer_name'', ''amount_due'', ''amount_paid'',
     ''status'', ''due_date'', ''last_followup'', ''denial_reason'', ''notes'']"

definition mock_raw :: "env \<Rightarrow> frame" where
  "mock_raw e =
     DataFrame (mock_loop (rng e) 0 0 (date_range (clock_now e - 90 * day) (clock_now e)))"

text \<open>The condition of the threshold filter on one record.\<close>

definition passes :: "real \<Rightarrow> row \<Rightarrow> bool" where
  "passes m r = (m \<le> num_of (r ''priority_score'') \<and> 0 < num_of (r ''outstanding''))"

definition column_of :: "string \<Rightarrow> error + frame \<Rightarrow> error + series" where
  "column_of c m = bind_err m (\<lambda>df. getcol df c)"

text \<open>
  What \<open>sort_values\<close> may rely on from \<^verbatim>\<open>argsort\<close> with the default \<^verbatim>\<open>kind="quicksort"\<close>: the
  result lists every position once and the keys in that order ascend. numpy documents
  this kind as not stable, so nothing is said about the order of equal keys.
\<close>

definition argsort_ok :: "(real list \<Rightarrow> nat list) \<Rightarrow> bool" where
  "argsort_ok srt =
     (\<forall>ks. mset (srt ks) = mset [0..<length ks] \<and> sorted (map (\<lambda>i. ks ! i) (srt ks)))"

text \<open>A record of the prioritized table: the score as a percentage, the aging bucket and
  the next action (lines 113 to 115).\<close>

definition top_row :: "row \<Rightarrow> row" where
  "top_row r =
     r(''priority_score'' := IntV (round_half_even (num_of (r ''priority_score'') * 100)),
       ''aging_bucket'' := bucket_label (num_of (r ''aging_days'')),
       ''next_action'' := action_label (60 < num_of (r ''aging_days'')))"

definition scored_record :: "row \<Rightarrow> bool" where
  "scored_record r =
     (is_num (r ''priority_score'') \<and> is_num (r ''outstanding'') \<and> is_num (r ''aging_days''))"

text \<open>The four metrics of lines 94 to 106 over a list of records.\<close>

definition metrics_of :: "row list \<Rightarrow> ui list" where
  "metrics_of rs =
     [Metric ''Total AR'' (FloatV (sum_list (map (\<lambda>r. num_of (r ''outstanding'')) rs))),
      Metric ''Open Accounts'' (IntV (int (length rs))),
      Metric ''Avg DSO (Days)''
        (if rs = [] then NaV
         else FloatV (sum_list (map (\<lambda>r. num_of (r ''aging_days'')) rs) / real (length rs))),
      Metric ''Recovery Potential''
        (FloatV (sum_list (map (\<lambda>r. num_of (r ''outstanding'') * 0.8) rs)))]"

text \<open>A record of the table as \<^verbatim>\<open>st.dataframe\<close> gets it at line 118: the display columns
  only.\<close>

definition display_row :: "row \<Rightarrow> row" where
  "display_row r = (\<lambda>k. if k \<in> set display_cols then r k else NaV)"

text \<open>The filtered table of a run, and whether something shown is a metric.\<close>

definition filtered_table :: "env \<Rightarrow> inputs \<Rightarrow> error + frame" where
  "filtered_table e inp =
     bind_err (table (fetch_ar_data e (start_date inp) (end_date inp)))
       (\<lambda>df. threshold_filter df (min_priority inp))"

definition is_metric :: "ui \<Rightarrow> bool" where
  "is_metric u = (case u of Metric l v \<Rightarrow> True | _ \<Rightarrow> False)"

text \<open>An answer that is a network failure or has a status code outside 200 to 299.\<close>

definition failed_or_non_2xx :: "http_result \<Rightarrow> bool" where
  "failed_or_non_2xx r =
     (case r of Failed msg \<Rightarrow> True | Response code body \<Rightarrow> code < 200 \<or> 300 \<le> code)"

section \<open>Example inputs\<close>

text \<open>An \<^verbatim>\<open>argsort\<close> that keeps equal keys in their order (insertion sort on the pairs of
  key and position).\<close>

definition stable_argsort :: "real list \<Rightarrow> nat list" where
  "stable_argsort ks = map snd (sort_key fst (zip ks [0..<length ks]))"

text \<open>A run without API key: every random draw is one half, and \<^verbatim>\<open>pd.to_datetime("today")\<close>
  is read one nanosecond after \<^verbatim>\<open>datetime.now()\<close>.\<close>

definition mock_env :: env where
  "mock_env =
     \<lparr>api_key = None, http_get = (\<lambda>r. Failed ''no network''), clock_now = 0, clock_today = 1,
      rng = (\<lambda>n. 1 / 2), parse_date = (\<lambda>s. None), argsort = stable_argsort\<rparr>"

text \<open>Two raw records due 45 days ago: one overpaid (500 due, 700 paid), one with 800
  outstanding.\<close>

definition overpaid_record :: row where
  "overpaid_record =
     row_of_dict [(''invoice_id'', StrV ''INV-1''), (''due_date'', TimeV (- 45 * day)),
       (''amount_due'', FloatV 500), (''amount_paid'', FloatV 700),
       (''payer_name'', StrV ''Medicare''), (''status'', StrV ''open'')]"

definition unpaid_record :: row where
  "unpaid_record =
     row_of_dict [(''invoice_id'', StrV ''INV-2''), (''due_date'', TimeV (- 45 * day)),
       (''amount_due'', FloatV 1000), (''amount_paid'', FloatV 200),
       (''payer_name'', StrV ''Medicare''), (''status'', StrV ''open'')]"

definition overpaid_example :: frame where
  "overpaid_example =
     \<lparr>columns = [''invoice_id'', ''due_date'', ''amount_due'', ''amount_paid'', ''payer_name'', ''status''],
      rows = [overpaid_record, unpaid_record]\<rparr>"

text \<open>A run with an API key. The API answers 200 with two payments that carry a due date
  and a status; dates are parsed to nanoseconds since 1 January 2026, and today is the
  hundredth day after it.\<close>

definition api_reply :: payload where
  "api_reply =
     JsonObject (Some [[(''due_date'', StrV ''2026-01-10''), (''status'', StrV ''denied'')],
                       [(''due_date'', StrV ''2026-02-20''), (''status'', StrV ''open'')]])"

definition remote_env :: env where
  "remote_env =
     \<lparr>api_key = Some ''key'', http_get = (\<lambda>r. Response 200 api_reply), clock_now = 100 * day,
      clock_today = 100 * day, rng = (\<lambda>n. 1 / 2),
      parse_date = (\<lambda>s. if s = ''2026-01-10'' then Some (9 * day)
                         else if s = ''2026-02-20'' then Some (50 * day) else None),
      argsort = stable_argsort\<rparr>"

text \<open>The table this run fetches.\<close>

definition remote_table :: frame where
  "remote_table =
     \<lparr>columns = [''due_date'', ''status'', ''aging_days'', ''denial_risk''],
      rows = [(row_of_dict [(''due_date'', StrV ''2026-01-10''), (''status'', StrV ''denied'')])
                  (''aging_days'' := IntV 91, ''denial_risk'' := FloatV 1),
              (row_of_dict [(''due_date'', StrV ''2026-02-20''), (''status'', StrV ''open'')])
                  (''aging_days'' := IntV 50, ''denial_risk'' := FloatV (9 / 20))]\<rparr>"

text \<open>The same run with the request timing out.\<close>

definition offline_env :: env where
  "offline_env = remote_env\<lparr>http_get := (\<lambda>r. Failed ''timed out'')\<rparr>"

definition default_inputs :: inputs where
  "default_inputs = \<lparr>start_date = 10, end_date = 100, min_priority = min_priority_default\<rparr>"

text \<open>The slider moved to 0.9.\<close>

definition strict_inputs :: inputs where
  "strict_inputs = \<lparr>start_date = 10, end_date = 100, min_priority = 0.9\<rparr>"

section \<open>Basic facts\<close>

lemma bind_err_simps [simp]:
  "bind_err (Inl e) f = Inl e" "bind_err (Inr x) f = f x"
  by (simp_all add: bind_err_def)

lemma mapE_map_Inr:
  "(\<And>x. x \<in> set xs \<Longrightarrow> f (h x) = Inr (g x)) \<Longrightarrow> mapE f (map h xs) = Inr (map g xs)"
  by (induction xs) auto

lemma is_num_simps [simp]:
  "is_num (FloatV x)" "is_num (IntV k)" "\<not> is_num (StrV s)" "\<not> is_num NaV"
  "\<not> is_num (TimeV t)" "\<not> is_num (BoolV b)"
  by (simp_all add: is_num_def)

lemma num_of_simps [simp]:
  "num_of (FloatV x) = x" "num_of (IntV k) = real_of_int k"
  by (simp_all add: num_of_def)

lemma is_str_simps [simp]:
  "is_str (StrV s)" "\<not> is_str (FloatV x)" "\<not> is_str (IntV k)" "\<not> is_str NaV"
  "\<not> is_str (TimeV t)" "\<not> is_str (BoolV b)"
  by (simp_all add: is_str_def)

lemma str_of_simp [simp]: "str_of (StrV s) = s"
  by (simp add: str_of_def)

lemma as_num_is_num: "is_num c \<Longrightarrow> as_num c = Inr (Some (num_of c))"
  by (cases c) (simp_all add: as_num_def)

lemma is_str_StrV: "is_str c \<Longrightarrow> c = StrV (str_of c)"
  by (cases c) simp_all

lemma getcol_in: "c \<in> set (columns df) \<Longrightarrow> getcol df c = Inr (map (\<lambda>r. r c) (rows df))"
  by (simp add: getcol_def)

lemma setcol_map: "setcol df c (map f (rows df)) = Inr (with_column df c f)"
  by (simp add: setcol_def with_column_def zip_map2 zip_same_conv_map)

lemma rows_with_column [simp]: "rows (with_column df c f) = map (\<lambda>r. r(c := f r)) (rows df)"
  by (simp add: with_column_def)

lemma columns_with_column [simp]:
  "set (columns (with_column df c f)) = insert c (set (columns df))"
  by (auto simp: with_column_def)

lemma series1_rows:
  "(\<And>x. x \<in> set xs \<Longrightarrow> is_num (h x)) \<Longrightarrow>
   series1 f (map h xs) = Inr (map (\<lambda>x. FloatV (f (num_of (h x)))) xs)"
  unfolding series1_def
  by (rule mapE_map_Inr) (simp add: lift1_def float_cell_def as_num_is_num)

lemma series2_rows:
  "(\<And>x. x \<in> set xs \<Longrightarrow> is_num (h x)) \<Longrightarrow> (\<And>x. x \<in> set xs \<Longrightarrow> is_num (h' x)) \<Longrightarrow>
   series2 f (map h xs) (map h' xs) = Inr (map (\<lambda>x. FloatV (f (num_of (h x)) (num_of (h' x)))) xs)"
  unfolding series2_def zip_map_map zip_same_conv_map map_map
  by (rule mapE_map_Inr) (simp add: lift2_def float_cell_def as_num_is_num)

lemma payer_risk_lookup:
  "is_str c \<Longrightarrow> fillna 0.3 (map_dict payer_risk c) = FloatV (payer_risk_spec (str_of c))"
  by (cases c) (simp_all add: fillna_def map_dict_def payer_risk_def payer_risk_spec_def)

lemma risk_lookup:
  "is_str c \<Longrightarrow> (if c = StrV ''denied'' then 1.0 else 0.5) = risk_boost (str_of c)"
  by (cases c) (simp_all add: risk_boost_def)

lemma calculate_priority_rows:
  assumes cols: "''payer_name'' \<in> set (columns df)" "''status'' \<in> set (columns df)"
      "''aging_days'' \<in> set (columns df)"
    and typed: "\<forall>r\<in>set (rows df). is_num (r ''aging_days'') \<and> is_str (r ''payer_name'') \<and> is_str (r ''status'')"
  shows "calculate_priority df =
     Inr (with_column df ''payer_risk'' (\<lambda>r. FloatV (payer_risk_spec (str_of (r ''payer_name'')))),
          map (\<lambda>r. FloatV (priority_score_spec (num_of (r ''aging_days'')) (str_of (r ''payer_name'')) (str_of (r ''status'')))) (rows df))"
proof -
  let ?pr = "\<lambda>r. FloatV (payer_risk_spec (str_of (r ''payer_name'')))"
  let ?df1 = "with_column df ''payer_risk'' ?pr"
  have pr: "map (\<lambda>c. fillna 0.3 (map_dict payer_risk c)) (map (\<lambda>r. r ''payer_name'') (rows df))
      = map ?pr (rows df)"
    using typed by (simp add: payer_risk_lookup)
  have s1: "setcol df ''payer_risk'' (map ?pr (rows df)) = Inr ?df1"
    by (rule setcol_map)
  have c1: "''status'' \<in> set (columns ?df1)" "''aging_days'' \<in> set (columns ?df1)"
    "''payer_risk'' \<in> set (columns ?df1)"
    using cols by simp_all
  have g1: "getcol ?df1 ''status'' = Inr (map (\<lambda>r. r ''status'') (rows df))"
    "getcol ?df1 ''aging_days'' = Inr (map (\<lambda>r. r ''aging_days'') (rows df))"
    "getcol ?df1 ''payer_risk'' = Inr (map ?pr (rows df))"
    by (simp_all only: getcol_in[OF c1(1)] getcol_in[OF c1(2)] getcol_in[OF c1(3)])
       (simp_all add: o_def)
  have risk: "map (\<lambda>c. FloatV (if c = StrV ''denied'' then 1.0 else 0.5)) (map (\<lambda>r. r ''status'') (rows df))
     = map (\<lambda>r. FloatV (risk_boost (str_of (r ''status'')))) (rows df)"
    using typed by (simp add: risk_lookup del: One_nat_def)
  have clip: "min 1 (max 0 x) = clamp01 x" for x :: real
    by (simp add: clamp01_def)
  show ?thesis
    unfolding calculate_priority_def
    apply (simp only: getcol_in[OF cols(1)] bind_err_simps pr s1 g1 risk Let_def)
    apply (simp add: series1_rows series2_rows typed priority_score_spec_def clip algebra_simps)
    done
qed


lemma row_of_dict_Cons [simp]:
  "row_of_dict ((k, v) # d) c = (if c = k then v else row_of_dict d c)"
  "row_of_dict [] c = NaV"
  by (simp_all add: row_of_dict_def)


subsection \<open>The derived fields\<close>

lemma is_time_simps [simp]:
  "is_time (TimeV t)" "\<not> is_time (FloatV x)" "\<not> is_time (IntV k)" "\<not> is_time NaV"
  "\<not> is_time (StrV s)" "\<not> is_time (BoolV b)"
  by (simp_all add: is_time_def)

lemma time_of_simp [simp]: "time_of (TimeV t) = t"
  by (simp add: time_of_def)

lemma to_datetime_time: "is_time c \<Longrightarrow> to_datetime parse c = Inr (TimeV (time_of c))"
  by (cases c) (simp_all add: to_datetime_def)

lemma getcol_with_column:
  "getcol (with_column df c f) k =
     (if k = c then Inr (map f (rows df))
      else if k \<in> set (columns df) then Inr (map (\<lambda>r. r k) (rows df)) else Inl (KeyError k))"
  by (simp add: getcol_def o_def)

lemma add_aging_days_rows:
  assumes "''due_date'' \<in> set (columns df)" "\<forall>r\<in>set (rows df). is_time (r ''due_date'')"
  shows "add_aging_days e df = Inr (with_column df ''aging_days'' (\<lambda>r. IntV (aging_of e r)))"
proof -
  have 1: "mapE (to_datetime (parse_date e)) (map (\<lambda>r. r ''due_date'') (rows df))
     = Inr (map (\<lambda>r. TimeV (time_of (r ''due_date''))) (rows df))"
    by (rule mapE_map_Inr) (simp add: assms to_datetime_time)
  have 2: "map (days_since (clock_today e)) (map (\<lambda>r. TimeV (time_of (r ''due_date''))) (rows df))
     = map (\<lambda>r. IntV (aging_of e r)) (rows df)"
    by (simp add: days_since_def aging_of_def)
  show ?thesis
    unfolding add_aging_days_def
    by (simp only: getcol_in[OF assms(1)] bind_err_simps 1 2 setcol_map)
qed

lemma add_outstanding_rows:
  assumes "''amount_due'' \<in> set (columns df)" "''amount_paid'' \<in> set (columns df)"
    "\<forall>r\<in>set (rows df). is_num (r ''amount_due'') \<and> is_num (r ''amount_paid'')"
  shows "add_outstanding df = Inr (with_column df ''outstanding''
            (\<lambda>r. FloatV (num_of (r ''amount_due'') - num_of (r ''amount_paid''))))"
  unfolding add_outstanding_def
  by (simp add: getcol_in assms series2_rows setcol_map)

lemma add_priority_score_rows:
  assumes cols: "''payer_name'' \<in> set (columns df)" "''status'' \<in> set (columns df)"
      "''aging_days'' \<in> set (columns df)"
    and typed: "\<forall>r\<in>set (rows df). is_num (r ''aging_days'') \<and> is_str (r ''payer_name'') \<and> is_str (r ''status'')"
  shows "add_priority_score df = Inr (with_column (with_column df ''payer_risk''
           (\<lambda>r. FloatV (payer_risk_spec (str_of (r ''payer_name'')))))
           ''priority_score'' (\<lambda>r. FloatV (priority_score_spec (num_of (r ''aging_days''))
               (str_of (r ''payer_name'')) (str_of (r ''status'')))))"
proof -
  let ?pr = "\<lambda>r. FloatV (payer_risk_spec (str_of (r ''payer_name'')))"
  let ?sc = "\<lambda>r. FloatV (priority_score_spec (num_of (r ''aging_days''))
               (str_of (r ''payer_name'')) (str_of (r ''status'')))"
  have "map ?sc (rows df) = map (\<lambda>r. ?sc r) (rows (with_column df ''payer_risk'' ?pr))"
    by (simp add: o_def)
  then show ?thesis
    unfolding add_priority_score_def calculate_priority_rows[OF cols typed]
    by (simp only: bind_err_simps prod.case setcol_map)
qed

lemma derive_fields_rows:
  assumes cols: "set raw_columns \<subseteq> set (columns df)"
    and typed: "\<forall>r\<in>set (rows df). raw_record r"
  shows "derive_fields e df = Inr (derived_frame e df)"
proof -
  let ?d1 = "with_column df ''aging_days'' (\<lambda>r. IntV (aging_of e r))"
  let ?d2 = "with_column ?d1 ''outstanding'' (\<lambda>r. FloatV (num_of (r ''amount_due'') - num_of (r ''amount_paid'')))"
  have c: "''due_date'' \<in> set (columns df)" "''amount_due'' \<in> set (columns df)"
     "''amount_paid'' \<in> set (columns df)" "''payer_name'' \<in> set (columns df)"
     "''status'' \<in> set (columns df)"
    using cols by (simp_all add: raw_columns_def)
  have t: "\<forall>r\<in>set (rows df). is_time (r ''due_date'')"
    "\<forall>r\<in>set (rows df). is_num (r ''amount_due'') \<and> is_num (r ''amount_paid'')"
    "\<forall>r\<in>set (rows df). is_str (r ''payer_name'') \<and> is_str (r ''status'')"
    using typed by (simp_all add: raw_record_def)
  have 1: "add_aging_days e df = Inr ?d1"
    by (rule add_aging_days_rows[OF c(1) t(1)])
  have 2: "add_outstanding ?d1 = Inr ?d2"
    by (rule add_outstanding_rows) (simp_all add: c t)
  have 3: "add_priority_score ?d2 = Inr (with_column (with_column ?d2 ''payer_risk''
           (\<lambda>r. FloatV (payer_risk_spec (str_of (r ''payer_name'')))))
           ''priority_score'' (\<lambda>r. FloatV (priority_score_spec (num_of (r ''aging_days''))
               (str_of (r ''payer_name'')) (str_of (r ''status'')))))"
    by (rule add_priority_score_rows) (simp_all add: c t)
  show ?thesis
    unfolding derive_fields_def
    apply (simp only: 1 2 3 bind_err_simps)
    apply (simp add: with_column_def derived_frame_def derived_row_def add_columns_def derived_columns_def o_def c)
    done
qed


subsection \<open>The threshold filter\<close>

lemma cmp_mask_rows:
  "(\<And>x. x \<in> set xs \<Longrightarrow> is_num (h x)) \<Longrightarrow>
   cmp_mask P (map h xs) = Inr (map (\<lambda>x. P (num_of (h x))) xs)"
  unfolding cmp_mask_def
  by (rule mapE_map_Inr) (simp add: as_num_is_num)

lemma filter_by_mask: "map fst (filter snd (zip xs (map P xs))) = filter P xs"
  by (induction xs) auto

lemma select_rows_map: "select_rows df (map P (rows df)) = df\<lparr>rows := filter P (rows df)\<rparr>"
  by (simp add: select_rows_def filter_by_mask)

lemma threshold_filter_rows:
  assumes cols: "''priority_score'' \<in> set (columns df)" "''outstanding'' \<in> set (columns df)"
    and typed: "\<forall>r\<in>set (rows df). is_num (r ''priority_score'') \<and> is_num (r ''outstanding'')"
  shows "threshold_filter df m =
     Inr (df\<lparr>rows := filter (\<lambda>r. m \<le> num_of (r ''priority_score'') \<and> 0 < num_of (r ''outstanding''))
                      (rows df)\<rparr>)"
proof -
  let ?df1 = "df\<lparr>rows := filter (\<lambda>r. m \<le> num_of (r ''priority_score'')) (rows df)\<rparr>"
  have 1: "cmp_mask (\<lambda>x. m \<le> x) (map (\<lambda>r. r ''priority_score'') (rows df))
      = Inr (map (\<lambda>r. m \<le> num_of (r ''priority_score'')) (rows df))"
    by (rule cmp_mask_rows) (simp add: typed)
  have 2: "getcol ?df1 ''outstanding'' = Inr (map (\<lambda>r. r ''outstanding'') (rows ?df1))"
    by (rule getcol_in) (simp add: cols)
  have 3: "cmp_mask (\<lambda>x. 0 < x) (map (\<lambda>r. r ''outstanding'') (rows ?df1))
      = Inr (map (\<lambda>r. 0 < num_of (r ''outstanding'')) (rows ?df1))"
    by (rule cmp_mask_rows) (simp add: typed)
  show ?thesis
    unfolding threshold_filter_def
    apply (simp only: getcol_in[OF cols(1)] bind_err_simps 1 select_rows_map Let_def 2 3)
    apply (simp add: conj_commute)
    done
qed

lemma derived_frame_typed:
  "\<forall>r\<in>set (rows (derived_frame e df)). is_num (r ''priority_score'') \<and> is_num (r ''outstanding'')
      \<and> is_num (r ''aging_days'')"
  by (simp add: derived_frame_def derived_row_def)

lemma set_add_columns: "set (add_columns cs new) = set cs \<union> set new"
  unfolding add_columns_def
  by (induction new arbitrary: cs) auto

lemma columns_derived_frame [simp]:
  "set (columns (derived_frame e df)) = set (columns df) \<union> set derived_columns"
  by (simp add: derived_frame_def set_add_columns)


subsection \<open>The mock generator\<close>

lemma mock_record_keys: "map fst (fst (mock_record g n i d)) = mock_keys"
  by (simp add: mock_record_def Let_def mock_keys_def)

lemma mock_record_raw: "raw_record (row_of_dict (fst (mock_record g n i d)))"
  by (simp add: mock_record_def Let_def raw_record_def)

lemma mock_record_fields:
  "row_of_dict (fst (mock_record g n i d)) ''due_date'' = TimeV d"
  "row_of_dict (fst (mock_record g n i d)) ''status'' = StrV (choice_p ''paid'' status_weights (g (n + 5)))"
  "(row_of_dict (fst (mock_record g n i d)) ''denial_reason'' \<noteq> NaV) = (0.7 < g (n + 7))"
  by (simp_all add: mock_record_def Let_def)

lemma mock_loop_length: "length (mock_loop g n i ds) = length ds"
  by (induction ds arbitrary: n i) (auto split: prod.splits)

lemma mock_loop_records:
  "rec \<in> set (mock_loop g n i ds) \<Longrightarrow> \<exists>n' i' d. rec = fst (mock_record g n' i' d)"
proof (induction ds arbitrary: n i)
  case Nil
  then show ?case by simp
next
  case (Cons d ds)
  then show ?case
    by (auto split: prod.splits) (metis fst_conv)
qed

lemma mock_loop_due:
  "map (\<lambda>rec. row_of_dict rec ''due_date'') (mock_loop g n i ds) = map TimeV ds"
proof (induction ds arbitrary: n i)
  case Nil
  then show ?case by simp
next
  case (Cons d ds)
  obtain rec n' where r: "mock_record g n i d = (rec, n')" by (cases "mock_record g n i d")
  have "row_of_dict rec ''due_date'' = TimeV d"
    using mock_record_fields(1)[of g n i d] r by simp
  then show ?case using Cons r by simp
qed

lemma set_union_keys: "set (union_keys ds) = (\<Union>d\<in>set ds. fst ` set d)"
proof -
  have "set (foldl (\<lambda>acc k. if k \<in> set acc then acc else acc @ [k]) acc ks) = set acc \<union> set ks"
    for acc ks :: "string list"
    by (induction ks arbitrary: acc) auto
  then show ?thesis by (auto simp: union_keys_def)
qed

lemma date_range_window:
  "date_range (t - 90 * day) t = map (\<lambda>k. t - 90 * day + int k * day) [0..<91]"
proof -
  have "(t - (t - 90 * day)) div day = 90" by (simp add: day_def)
  then show ?thesis by (simp add: date_range_def day_def)
qed


lemma mock_raw_rows:
  "rows (mock_raw e) = map row_of_dict (mock_loop (rng e) 0 0 (date_range (clock_now e - 90 * day) (clock_now e)))"
  by (simp add: mock_raw_def DataFrame_def)

lemma mock_raw_length: "length (rows (mock_raw e)) = 91"
  by (simp add: mock_raw_rows mock_loop_length date_range_window)

lemma mock_raw_columns: "set (columns (mock_raw e)) = set mock_keys"
proof -
  let ?ds = "mock_loop (rng e) 0 0 (date_range (clock_now e - 90 * day) (clock_now e))"
  have k: "fst ` set d = set mock_keys" if "d \<in> set ?ds" for d
    using mock_loop_records[OF that] mock_record_keys by (metis set_map)
  have "length ?ds = 91" by (simp add: mock_loop_length date_range_window)
  then have "?ds \<noteq> []" by auto
  then obtain d where "d \<in> set ?ds" by (cases ?ds) auto
  with k show ?thesis
    by (auto simp: mock_raw_def DataFrame_def set_union_keys)
qed

lemma mock_raw_typed: "\<forall>r\<in>set (rows (mock_raw e)). raw_record r"
  using mock_loop_records mock_record_raw by (fastforce simp: mock_raw_rows)


lemma mock_raw_due:
  "map (\<lambda>r. r ''due_date'') (rows (mock_raw e))
     = map (\<lambda>k. TimeV (clock_now e - 90 * day + int k * day)) [0..<91]"
  using mock_loop_due[of "rng e" 0 0 "date_range (clock_now e - 90 * day) (clock_now e)"]
  by (simp add: mock_raw_rows o_def date_range_window del: upt_Suc)

lemma fetch_mock_table: "table (fetch_mock e) = Inr (derived_frame e (mock_raw e))"
proof -
  have "set raw_columns \<subseteq> set (columns (mock_raw e))"
    by (simp add: mock_raw_columns raw_columns_def mock_keys_def)
  then have "derive_fields e (mock_raw e) = Inr (derived_frame e (mock_raw e))"
    using mock_raw_typed by (rule derive_fields_rows)
  then show ?thesis
    by (simp add: fetch_mock_def Let_def mock_raw_def)
qed




subsection \<open>The remote fetch\<close>

lemma add_denial_risk_rows:
  assumes "add_denial_risk e df1 = Inr df"
  shows "df = with_column df1 ''denial_risk''
     (\<lambda>r. FloatV (if r ''status'' = StrV ''denied'' then 1 else uniform 0.1 0.8 (rng e 0)))"
proof -
  have c: "''status'' \<in> set (columns df1)"
    using assms by (auto simp: add_denial_risk_def getcol_def split: if_splits)
  have "map (\<lambda>c. FloatV (if c = StrV ''denied'' then 1.0 else uniform 0.1 0.8 (rng e 0))) (map (\<lambda>r. r ''status'') (rows df1))
     = map (\<lambda>r. FloatV (if r ''status'' = StrV ''denied'' then 1 else uniform 0.1 0.8 (rng e 0))) (rows df1)"
    by (simp add: o_def)
  then show ?thesis
    using assms unfolding add_denial_risk_def
    by (simp only: getcol_in[OF c] bind_err_simps Let_def setcol_map) simp
qed

lemma fetch_real_nonempty:
  assumes "table (fetch_real e k s d) = Inr df" "\<not> df_empty df"
  shows "\<exists>df1. add_denial_risk e df1 = Inr df"
  using assms
  by (auto simp: fetch_real_def Let_def parse_response_def df_empty_def empty_frame_def bind_err_def
      split: http_result.splits if_splits sum.splits payload.splits)

lemma remote_env_fields:
  "api_key remote_env = Some ''key''" "http_get remote_env r = Response 200 api_reply"
  "rng remote_env n = 1 / 2" "argsort remote_env = stable_argsort"
  "clock_today remote_env = 100 * day"
  "parse_date remote_env ''2026-01-10'' = Some (9 * day)"
  "parse_date remote_env ''2026-02-20'' = Some (50 * day)"
  by (simp_all add: remote_env_def)

lemma api_reply_frame:
  "DataFrame [[(''due_date'', StrV ''2026-01-10''), (''status'', StrV ''denied'')],
              [(''due_date'', StrV ''2026-02-20''), (''status'', StrV ''open'')]]
   = \<lparr>columns = [''due_date'', ''status''],
      rows = [row_of_dict [(''due_date'', StrV ''2026-01-10''), (''status'', StrV ''denied'')],
              row_of_dict [(''due_date'', StrV ''2026-02-20''), (''status'', StrV ''open'')]]\<rparr>"
  by (simp add: DataFrame_def union_keys_def)

lemma remote_aging:
  "add_aging_days remote_env
      \<lparr>columns = [''due_date'', ''status''],
       rows = [row_of_dict [(''due_date'', StrV ''2026-01-10''), (''status'', StrV ''denied'')],
              row_of_dict [(''due_date'', StrV ''2026-02-20''), (''status'', StrV ''open'')]]\<rparr>
   = Inr \<lparr>columns = [''due_date'', ''status'', ''aging_days''],
       rows = [(row_of_dict [(''due_date'', StrV ''2026-01-10''), (''status'', StrV ''denied'')])(''aging_days'' := IntV 91),
              (row_of_dict [(''due_date'', StrV ''2026-02-20''), (''status'', StrV ''open'')])(''aging_days'' := IntV 50)]\<rparr>"
  by (simp add: add_aging_days_def getcol_def setcol_def to_datetime_def days_since_def
      remote_env_fields day_def)

lemma remote_denial:
  "add_denial_risk remote_env \<lparr>columns = [''due_date'', ''status'', ''aging_days''],
       rows = [(row_of_dict [(''due_date'', StrV ''2026-01-10''), (''status'', StrV ''denied'')])(''aging_days'' := IntV 91),
              (row_of_dict [(''due_date'', StrV ''2026-02-20''), (''status'', StrV ''open'')])(''aging_days'' := IntV 50)]\<rparr>
   = Inr \<lparr>columns = [''due_date'', ''status'', ''aging_days'', ''denial_risk''],
       rows = [(row_of_dict [(''due_date'', StrV ''2026-01-10''), (''status'', StrV ''denied'')])
                  (''aging_days'' := IntV 91, ''denial_risk'' := FloatV 1),
              (row_of_dict [(''due_date'', StrV ''2026-02-20''), (''status'', StrV ''open'')])
                  (''aging_days'' := IntV 50, ''denial_risk'' := FloatV (9 / 20))]\<rparr>"
  by (simp add: add_denial_risk_def getcol_def setcol_def uniform_def remote_env_fields)

lemma remote_parse: "parse_response remote_env api_reply = Inr remote_table"
  unfolding parse_response_def api_reply_def remote_table_def
  by (simp only: payload.case option.case Let_def api_reply_frame remote_aging bind_err_simps remote_denial)

lemma remote_fetch_result:
  "fetch_ar_data remote_env s d =
     \<lparr>table = Inr remote_table, shown = [], sent = [api_request ''key'' s d]\<rparr>"
  by (simp add: fetch_ar_data_def fetch_real_def remote_env_fields Let_def remote_parse)

lemma remote_table_facts:
  "columns remote_table = [''due_date'', ''status'', ''aging_days'', ''denial_risk'']"
  "map (\<lambda>r. r ''status'') (rows remote_table) = [StrV ''denied'', StrV ''open'']"
  "\<not> df_empty remote_table"
  by (simp_all add: remote_table_def df_empty_def)

lemma threshold_filter_no_score:
  "''priority_score'' \<notin> set (columns df) \<Longrightarrow> threshold_filter df m = Inl (KeyError ''priority_score'')"
  by (simp add: threshold_filter_def getcol_def)


subsection \<open>The key metrics\<close>

lemma mapE_as_num_rows:
  "(\<And>x. x \<in> set xs \<Longrightarrow> is_num (h x)) \<Longrightarrow>
   mapE as_num (map h xs) = Inr (map (\<lambda>x. Some (num_of (h x))) xs)"
  by (rule mapE_map_Inr) (simp add: as_num_is_num)

lemma map_filter_Some: "List.map_filter id (map (\<lambda>x. Some (f x)) xs) = map f xs"
  by (induction xs) (simp_all add: List.map_filter_simps)

lemma series_sum_rows:
  "(\<And>x. x \<in> set xs \<Longrightarrow> is_num (h x)) \<Longrightarrow>
   series_sum (map h xs) = Inr (FloatV (sum_list (map (\<lambda>x. num_of (h x)) xs)))"
  by (simp add: series_sum_def mapE_as_num_rows map_filter_Some)

lemma series_mean_rows:
  "(\<And>x. x \<in> set xs \<Longrightarrow> is_num (h x)) \<Longrightarrow>
   series_mean (map h xs) =
     Inr (if xs = [] then NaV
          else FloatV (sum_list (map (\<lambda>x. num_of (h x)) xs) / real (length xs)))"
  by (simp add: series_mean_def mapE_as_num_rows map_filter_Some Let_def)

lemma key_metrics_rows:
  assumes "''outstanding'' \<in> set (columns df)" "''aging_days'' \<in> set (columns df)"
    and "\<forall>r\<in>set (rows df). scored_record r"
  shows "key_metrics df = Inr (metrics_of (rows df))"
proof -
  have t: "\<And>r. r \<in> set (rows df) \<Longrightarrow> is_num (r ''outstanding'')"
    "\<And>r. r \<in> set (rows df) \<Longrightarrow> is_num (r ''aging_days'')"
    using assms(3) by (simp_all add: scored_record_def)
  show ?thesis
    unfolding key_metrics_def
    by (simp add: getcol_in assms(1,2) series_sum_rows series_mean_rows series1_rows t
        Let_def metrics_of_def)
qed


subsection \<open>Sorting by score\<close>

lemma map_filter_zip_Some:
  "List.map_filter (\<lambda>(v, i). map_option (\<lambda>x. (x, i)) v) (zip (map Some ks) js) = zip ks js"
proof (induction ks arbitrary: js)
  case Nil
  then show ?case by (simp add: List.map_filter_simps)
next
  case (Cons k ks)
  then show ?case by (cases js) (simp_all add: List.map_filter_simps)
qed

lemma filter_zip_None:
  "filter (\<lambda>(v, i). v = None) (zip (map Some ks) js) = []"
proof (induction ks arbitrary: js)
  case Nil
  then show ?case by simp
next
  case (Cons k ks)
  then show ?case by (cases js) simp_all
qed

lemma map_mirror_upt: "map (\<lambda>j. n - Suc j) [0..<n] = rev [0..<n]"
  by (rule nth_equalityI) (simp_all add: rev_nth)

lemma nargsort_indexer:
  fixes ks :: "real list"
  assumes ok: "argsort_ok srt"
  defines "n \<equiv> length ks"
  defines "indexer \<equiv> rev (map (\<lambda>j. snd (rev (zip ks [0..<n]) ! j)) (srt (map fst (rev (zip ks [0..<n])))))"
  shows "mset indexer = mset [0..<n] \<and> sorted_wrt (\<ge>) (map (\<lambda>i. ks ! i) indexer)"
proof -
  let ?order = "srt (rev ks)"
  have keys: "map fst (rev (zip ks [0..<n])) = rev ks"
    by (simp add: n_def rev_map[symmetric])
  have m: "mset ?order = mset [0..<n]"
    using ok by (simp add: argsort_ok_def n_def)
  have s: "sorted (map (\<lambda>j. rev ks ! j) ?order)"
    using ok by (simp add: argsort_ok_def)
  have lt: "j < n" if "j \<in> set ?order" for j
  proof -
    have "j \<in> set [0..<n]" using that m by (metis set_mset_mset)
    then show ?thesis by simp
  qed
  have nth: "rev (zip ks [0..<n]) ! j = (ks ! (n - Suc j), n - Suc j)" if "j < n" for j
    using that by (simp add: rev_nth n_def)
  have idx: "indexer = rev (map (\<lambda>j. n - Suc j) ?order)"
    unfolding indexer_def keys using lt nth by simp
  have "mset indexer = image_mset (\<lambda>j. n - Suc j) (mset [0..<n])"
    unfolding idx using m by simp
  also have "\<dots> = mset (map (\<lambda>j. n - Suc j) [0..<n])" by simp
  also have "\<dots> = mset [0..<n]" unfolding map_mirror_upt by simp
  finally have 1: "mset indexer = mset [0..<n]" .
  have "map (\<lambda>i. ks ! i) indexer = rev (map (\<lambda>j. ks ! (n - Suc j)) ?order)"
    unfolding idx by (simp add: rev_map o_def)
  also have "map (\<lambda>j. ks ! (n - Suc j)) ?order = map (\<lambda>j. rev ks ! j) ?order"
    using lt by (simp add: rev_nth n_def)
  finally have "map (\<lambda>i. ks ! i) indexer = rev (map (\<lambda>j. rev ks ! j) ?order)" .
  then have 2: "sorted_wrt (\<ge>) (map (\<lambda>i. ks ! i) indexer)"
    using s by (simp add: sorted_wrt_rev)
  from 1 2 show ?thesis by simp
qed

lemma sort_values_desc_rows:
  assumes col: "c \<in> set (columns df)" and typed: "\<forall>r\<in>set (rows df). is_num (r c)"
    and ok: "argsort_ok srt"
  shows "\<exists>rs. sort_values_desc srt df c = Inr (df\<lparr>rows := rs\<rparr>) \<and> mset rs = mset (rows df)
            \<and> sorted_wrt (\<ge>) (map (\<lambda>r. num_of (r c)) rs)"
proof -
  let ?ks = "map (\<lambda>r. num_of (r c)) (rows df)"
  let ?n = "length (rows df)"
  let ?indexer = "rev (map (\<lambda>j. snd (rev (zip ?ks [0..<?n]) ! j)) (srt (map fst (rev (zip ?ks [0..<?n])))))"
  let ?rs = "map (\<lambda>i. rows df ! i) ?indexer"
  have v: "mapE as_num (map (\<lambda>r. r c) (rows df)) = Inr (map Some ?ks)"
    using typed by (simp add: mapE_as_num_rows o_def)
  have e: "sort_values_desc srt df c = Inr (df\<lparr>rows := ?rs\<rparr>)"
    unfolding sort_values_desc_def
    by (simp only: getcol_in[OF col] bind_err_simps v Let_def length_map map_filter_zip_Some
        filter_zip_None list.map append_Nil2)
  have i: "mset ?indexer = mset [0..<?n]" "sorted_wrt (\<ge>) (map (\<lambda>i. ?ks ! i) ?indexer)"
    using nargsort_indexer[OF ok, of ?ks] by simp_all
  have lt: "j < ?n" if "j \<in> set ?indexer" for j
  proof -
    have "j \<in> set [0..<?n]" using that i(1) by (metis set_mset_mset)
    then show ?thesis by simp
  qed
  have "mset ?rs = image_mset (\<lambda>i. rows df ! i) (mset ?indexer)" by simp
  also have "\<dots> = mset (map (\<lambda>i. rows df ! i) [0..<?n])" unfolding i(1) by simp
  also have "\<dots> = mset (rows df)" by (simp add: map_nth)
  finally have 1: "mset ?rs = mset (rows df)" .
  have eq: "map (\<lambda>r. num_of (r c)) ?rs = map (\<lambda>i. ?ks ! i) ?indexer"
    using lt by simp
  have 2: "sorted_wrt (\<ge>) (map (\<lambda>r. num_of (r c)) ?rs)"
    unfolding eq by (rule i(2))
  from e 1 2 show ?thesis by blast
qed


subsection \<open>The prioritized table\<close>

lemma astype_int_rounded: "astype_int (FloatV (real_of_int k)) = Inr (IntV k)"
  by (simp add: astype_int_def)

lemma cut_aging_rows:
  "(\<And>x. x \<in> set xs \<Longrightarrow> is_num (h x)) \<Longrightarrow>
   mapE cut_aging (map h xs) = Inr (map (\<lambda>x. bucket_label (num_of (h x))) xs)"
  by (rule mapE_map_Inr) (simp add: cut_aging_def as_num_is_num)

lemma percent_rows:
  "mapE astype_int (map (\<lambda>x. FloatV (real_of_int (f x))) xs) = Inr (map (\<lambda>x. IntV (f x)) xs)"
  by (rule mapE_map_Inr) (simp add: astype_int_rounded)

lemma decorate_top:
  assumes cols: "''priority_score'' \<in> set (columns tdf)" "''aging_days'' \<in> set (columns tdf)"
    and typed: "\<forall>r\<in>set (rows tdf). is_num (r ''priority_score'') \<and> is_num (r ''aging_days'')"
  shows
   "bind_err (getcol tdf ''priority_score'') (\<lambda>score.
     bind_err (series1 (\<lambda>x. x * 100) score) (\<lambda>scaled.
     bind_err (series1 (\<lambda>x. real_of_int (round_half_even x)) scaled) (\<lambda>rounded.
     bind_err (mapE astype_int rounded) (\<lambda>percent.
     bind_err (setcol tdf ''priority_score'' percent) (\<lambda>df1.
     bind_err (getcol df1 ''aging_days'') (\<lambda>aging.
     bind_err (mapE cut_aging aging) (\<lambda>buckets.
     bind_err (setcol df1 ''aging_bucket'' buckets) (\<lambda>df2.
     bind_err (getcol df2 ''aging_days'') (\<lambda>aging2.
     bind_err (cmp_mask (\<lambda>x. 60 < x) aging2) (\<lambda>old.
     setcol df2 ''next_action'' (map action_label old)))))))))))
    = Inr \<lparr>columns = add_columns (columns tdf) [''aging_bucket'', ''next_action''],
           rows = map top_row (rows tdf)\<rparr>"
proof -
  let ?pct = "\<lambda>r. IntV (round_half_even (num_of (r ''priority_score'') * 100))"
  let ?df1 = "with_column tdf ''priority_score'' ?pct"
  let ?bkt = "\<lambda>r. bucket_label (num_of (r ''aging_days''))"
  let ?df2 = "with_column ?df1 ''aging_bucket'' ?bkt"
  let ?act = "\<lambda>r. action_label (60 < num_of (r ''aging_days''))"
  have t: "\<And>r. r \<in> set (rows tdf) \<Longrightarrow> is_num (r ''priority_score'')"
    "\<And>r. r \<in> set (rows tdf) \<Longrightarrow> is_num (r ''aging_days'')"
    using typed by simp_all
  have 1: "series1 (\<lambda>x. x * 100) (map (\<lambda>r. r ''priority_score'') (rows tdf))
      = Inr (map (\<lambda>r. FloatV (num_of (r ''priority_score'') * 100)) (rows tdf))"
    by (rule series1_rows) (rule t)
  have 2: "series1 (\<lambda>x. real_of_int (round_half_even x)) (map (\<lambda>r. FloatV (num_of (r ''priority_score'') * 100)) (rows tdf))
      = Inr (map (\<lambda>r. FloatV (real_of_int (round_half_even (num_of (r ''priority_score'') * 100)))) (rows tdf))"
    using series1_rows[of "rows tdf" "\<lambda>r. FloatV (num_of (r ''priority_score'') * 100)"] by simp
  have 3: "mapE astype_int (map (\<lambda>r. FloatV (real_of_int (round_half_even (num_of (r ''priority_score'') * 100)))) (rows tdf))
      = Inr (map ?pct (rows tdf))"
    by (rule percent_rows)
  have 4: "setcol tdf ''priority_score'' (map ?pct (rows tdf)) = Inr ?df1"
    by (rule setcol_map)
  have 5: "getcol ?df1 ''aging_days'' = Inr (map (\<lambda>r. r ''aging_days'') (rows tdf))"
    by (simp add: getcol_with_column cols)
  have 6: "mapE cut_aging (map (\<lambda>r. r ''aging_days'') (rows tdf)) = Inr (map ?bkt (rows tdf))"
    by (rule cut_aging_rows) (rule t)
  have 7: "map ?bkt (rows tdf) = map ?bkt (rows ?df1)"
    by (simp add: o_def)
  have 8: "setcol ?df1 ''aging_bucket'' (map ?bkt (rows ?df1)) = Inr ?df2"
    by (rule setcol_map)
  have 9: "getcol ?df2 ''aging_days'' = Inr (map (\<lambda>r. r ''aging_days'') (rows tdf))"
    by (simp add: getcol_with_column cols o_def)
  have 10: "cmp_mask (\<lambda>x. 60 < x) (map (\<lambda>r. r ''aging_days'') (rows tdf))
      = Inr (map (\<lambda>r. 60 < num_of (r ''aging_days'')) (rows tdf))"
    by (rule cmp_mask_rows) (rule t)
  have 11: "map action_label (map (\<lambda>r. 60 < num_of (r ''aging_days'')) (rows tdf)) = map ?act (rows ?df2)"
    by (simp add: o_def)
  have 12: "setcol ?df2 ''next_action'' (map ?act (rows ?df2)) = Inr (with_column ?df2 ''next_action'' ?act)"
    by (rule setcol_map)
  have 13: "with_column ?df2 ''next_action'' ?act
      = \<lparr>columns = add_columns (columns tdf) [''aging_bucket'', ''next_action''],
           rows = map top_row (rows tdf)\<rparr>"
    by (simp add: with_column_def add_columns_def top_row_def cols o_def)
  show ?thesis
    by (simp only: getcol_in[OF cols(1)] bind_err_simps 1 2 3 4 5 6 7 8 9 10 11 12 13)
qed

lemma priority_table_rows:
  assumes cols: "''priority_score'' \<in> set (columns df)" "''aging_days'' \<in> set (columns df)"
    and typed: "\<forall>r\<in>set (rows df). is_num (r ''priority_score'') \<and> is_num (r ''aging_days'')"
    and ok: "argsort_ok srt"
  shows "\<exists>rs. mset rs = mset (rows df)
      \<and> sorted_wrt (\<ge>) (map (\<lambda>r. num_of (r ''priority_score'')) rs)
      \<and> priority_table srt df =
           Inr \<lparr>columns = add_columns (columns df) [''aging_bucket'', ''next_action''],
                rows = map top_row (take 10 rs)\<rparr>"
proof -
  have "\<forall>r\<in>set (rows df). is_num (r ''priority_score'')" using typed by simp
  from sort_values_desc_rows[OF cols(1) this ok]
  obtain rs where s: "sort_values_desc srt df ''priority_score'' = Inr (df\<lparr>rows := rs\<rparr>)"
    and m: "mset rs = mset (rows df)"
    and d: "sorted_wrt (\<ge>) (map (\<lambda>r. num_of (r ''priority_score'')) rs)"
    by blast
  let ?tdf = "df\<lparr>rows := take 10 rs\<rparr>"
  have sub: "set (take 10 rs) \<subseteq> set (rows df)"
    using m set_take_subset[of 10 rs] by (metis set_mset_mset)
  have c: "''priority_score'' \<in> set (columns ?tdf)" "''aging_days'' \<in> set (columns ?tdf)"
    using cols by simp_all
  have t: "\<forall>r\<in>set (rows ?tdf). is_num (r ''priority_score'') \<and> is_num (r ''aging_days'')"
    using typed sub by auto
  have "priority_table srt df =
           Inr \<lparr>columns = add_columns (columns ?tdf) [''aging_bucket'', ''next_action''],
                rows = map top_row (rows ?tdf)\<rparr>"
  proof -
    have e: "(df\<lparr>rows := rs\<rparr>)\<lparr>rows := take 10 (rows (df\<lparr>rows := rs\<rparr>))\<rparr> = ?tdf"
      by simp
    show ?thesis
      unfolding priority_table_def s
      by (simp only: bind_err_simps Let_def e decorate_top[OF c t])
  qed
  then show ?thesis using m d by auto
qed


subsection \<open>An admissible sorting routine\<close>

lemma zip_upt_keys:
  "p \<in> set (zip ks [0..<length ks]) \<Longrightarrow> ks ! snd p = fst p"
  by (auto simp: in_set_zip)

lemma stable_argsort_ok: "argsort_ok stable_argsort"
  unfolding argsort_ok_def
proof (intro allI conjI)
  fix ks :: "real list"
  let ?ps = "zip ks [0..<length ks]"
  have "mset (map snd (sort_key fst ?ps)) = mset (map snd ?ps)"
    by (simp only: mset_map mset_sort)
  moreover have "map snd ?ps = [0..<length ks]" by simp
  ultimately show "mset (stable_argsort ks) = mset [0..<length ks]"
    by (simp only: stable_argsort_def)
  have "map (\<lambda>i. ks ! i) (stable_argsort ks) = map fst (sort_key fst ?ps)"
    by (simp add: stable_argsort_def zip_upt_keys)
  then show "sorted (map (\<lambda>i. ks ! i) (stable_argsort ks))"
    by simp
qed

subsection \<open>A run in mock mode\<close>

lemma select_columns_present:
  "set cs \<subseteq> set (columns df) \<Longrightarrow>
   select_columns df cs = Inr \<lparr>columns = cs, rows = map (\<lambda>r k. if k \<in> set cs then r k else NaV) (rows df)\<rparr>"
proof -
  assume "set cs \<subseteq> set (columns df)"
  then have "filter (\<lambda>c. c \<notin> set (columns df)) cs = []"
    by (auto simp: filter_empty_conv)
  then show ?thesis by (simp add: select_columns_def)
qed

lemma aging_pivot_no_bucket:
  "''aging_bucket'' \<notin> set (columns df) \<Longrightarrow> aging_pivot df = Inl (KeyError ''aging_bucket'')"
  by (simp add: aging_pivot_def getcol_def)

lemma after_fetch_scored:
  assumes ne: "\<not> df_empty df"
    and cols: "set display_cols - {''next_action''} \<subseteq> set (columns df)"
    and nb: "''aging_bucket'' \<notin> set (columns df)"
    and typed: "\<forall>r\<in>set (rows df). scored_record r"
    and ok: "argsort_ok srt"
  shows "\<exists>rs. mset rs = mset (filter (passes m) (rows df))
      \<and> after_fetch srt df m =
          (metrics_of (filter (passes m) (rows df))
             @ [ShowTable \<lparr>columns = display_cols, rows = map display_row (map top_row (take 10 rs))\<rparr>],
           Raised (KeyError ''aging_bucket''))"
proof -
  let ?fdf = "df\<lparr>rows := filter (passes m) (rows df)\<rparr>"
  have c: "''priority_score'' \<in> set (columns df)" "''outstanding'' \<in> set (columns df)"
    "''aging_days'' \<in> set (columns df)"
    using cols by (auto simp: display_cols_def)
  have t: "\<forall>r\<in>set (rows df). is_num (r ''priority_score'') \<and> is_num (r ''outstanding'')"
    using typed by (simp add: scored_record_def)
  have f: "threshold_filter df m = Inr ?fdf"
  proof -
    have "passes m = (\<lambda>r. m \<le> num_of (r ''priority_score'') \<and> 0 < num_of (r ''outstanding''))"
      by (auto simp: passes_def)
    then show ?thesis
      using threshold_filter_rows[OF c(1,2) t, of m] by simp
  qed
  have k: "key_metrics ?fdf = Inr (metrics_of (rows ?fdf))"
    by (rule key_metrics_rows) (use c typed in auto)
  have "\<forall>r\<in>set (rows ?fdf). is_num (r ''priority_score'') \<and> is_num (r ''aging_days'')"
    using typed by (simp add: scored_record_def)
  from priority_table_rows[OF _ _ this ok]
  obtain rs where m: "mset rs = mset (rows ?fdf)"
    and p: "priority_table srt ?fdf =
           Inr \<lparr>columns = add_columns (columns ?fdf) [''aging_bucket'', ''next_action''],
                rows = map top_row (take 10 rs)\<rparr>"
    using c by auto
  let ?pdf = "\<lparr>columns = add_columns (columns ?fdf) [''aging_bucket'', ''next_action''],
                rows = map top_row (take 10 rs)\<rparr>"
  have "set display_cols \<subseteq> set (columns ?pdf)"
    using cols by (auto simp: set_add_columns)
  then have s: "select_columns ?pdf display_cols =
       Inr \<lparr>columns = display_cols, rows = map display_row (map top_row (take 10 rs))\<rparr>"
    by (simp add: select_columns_present display_row_def)
  have a: "aging_pivot ?fdf = Inl (KeyError ''aging_bucket'')"
    by (rule aging_pivot_no_bucket) (simp add: nb)
  have "after_fetch srt df m =
          (metrics_of (filter (passes m) (rows df))
             @ [ShowTable \<lparr>columns = display_cols, rows = map display_row (map top_row (take 10 rs))\<rparr>],
           Raised (KeyError ''aging_bucket''))"
    unfolding after_fetch_def
    by (simp only: ne if_False f sum.case k p bind_err_simps s a) simp
  with m show ?thesis by auto
qed

lemma mock_frame_facts:
  "\<not> df_empty (derived_frame e (mock_raw e))"
  "set display_cols - {''next_action''} \<subseteq> set (columns (derived_frame e (mock_raw e)))"
  "''aging_bucket'' \<notin> set (columns (derived_frame e (mock_raw e)))"
  "\<forall>r\<in>set (rows (derived_frame e (mock_raw e))). scored_record r"
proof -
  have "length (rows (derived_frame e (mock_raw e))) = 91"
    by (simp add: derived_frame_def mock_raw_length)
  then have "rows (derived_frame e (mock_raw e)) \<noteq> []"
    by auto
  moreover have "''aging_days'' \<in> set (columns (derived_frame e (mock_raw e)))"
    by (simp add: derived_columns_def)
  then have "columns (derived_frame e (mock_raw e)) \<noteq> []"
    by (metis empty_iff empty_set)
  ultimately show "\<not> df_empty (derived_frame e (mock_raw e))"
    by (simp add: df_empty_def)
  show "set display_cols - {''next_action''} \<subseteq> set (columns (derived_frame e (mock_raw e)))"
    by (auto simp: mock_raw_columns display_cols_def mock_keys_def derived_columns_def)
  show "''aging_bucket'' \<notin> set (columns (derived_frame e (mock_raw e)))"
    by (simp add: mock_raw_columns mock_keys_def derived_columns_def)
  show "\<forall>r\<in>set (rows (derived_frame e (mock_raw e))). scored_record r"
    using derived_frame_typed[of e "mock_raw e"] by (simp add: scored_record_def)
qed

lemma dashboard_mock:
  assumes "api_key e = None"
  shows "dashboard e inp =
     (case after_fetch (argsort e) (derived_frame e (mock_raw e)) (min_priority inp) of
        (out, how) \<Rightarrow>
          (Info ''Demo Mode: Using sample healthcare data. Add NIKO_API_KEY to go live.'' # out, how))"
  using assms
  by (simp add: dashboard_def fetch_ar_data_def Let_def fetch_mock_table)
     (simp add: fetch_mock_def Let_def)


lemma fetch_shows_no_metric: "\<not> list_ex is_metric (shown (fetch_ar_data e s d))"
  by (auto simp: fetch_ar_data_def fetch_mock_def fetch_real_def Let_def is_metric_def
      split: option.splits http_result.splits sum.splits)

lemma offline_fetch:
  "fetch_ar_data offline_env s d =
     \<lparr>table = Inr empty_frame, shown = [ErrorMsg ''Connection issue: timed out''],
      sent = [api_request ''key'' s d]\<rparr>"
  by (simp add: fetch_ar_data_def fetch_real_def offline_env_def remote_env_def Let_def)

lemma score_bound: "a \<le> 90 \<Longrightarrow> priority_score_spec a p s \<le> 22 / 25"
proof -
  assume a: "a \<le> 90"
  define x where "x = 0.4 * (a / 90) + 0.3 * payer_risk_spec p + 0.3 * risk_boost s"
  have p: "payer_risk_spec p \<le> 3 / 5"
    by (simp add: payer_risk_spec_def)
  have r: "risk_boost s \<le> 1"
    by (simp add: risk_boost_def)
  have "x \<le> 22 / 25"
    unfolding x_def using a p r by simp
  then have "max 0 (min 1 x) \<le> 22 / 25"
    by simp
  then show ?thesis
    by (simp only: priority_score_spec_def clamp01_def x_def)
qed

lemma mock_aging:
  assumes "clock_now e \<le> clock_today e" and "clock_today e < clock_now e + day"
    and "r \<in> set (rows (mock_raw e))"
  shows "aging_of e r \<le> 90"
proof -
  have "r ''due_date'' \<in> set (map (\<lambda>r. r ''due_date'') (rows (mock_raw e)))"
    using assms(3) by simp
  then obtain k where k: "r ''due_date'' = TimeV (clock_now e - 90 * day + int k * day)"
    unfolding mock_raw_due by auto
  define x where "x = clock_today e - clock_now e"
  have "clock_today e - (clock_now e - 90 * day + int k * day) = x + (90 - int k) * day"
    by (simp add: algebra_simps x_def)
  then have "aging_of e r = (x + (90 - int k) * day) div day"
    by (simp only: aging_of_def k time_of_simp)
  moreover have "day \<noteq> 0" by (simp add: day_def)
  ultimately have "aging_of e r = (90 - int k) + x div day"
    by (metis div_mult_self1)
  moreover have "x div day = 0"
    using assms(1,2) by (simp add: x_def)
  ultimately show ?thesis by simp
qed

lemma threshold_filter_passes:
  assumes "''priority_score'' \<in> set (columns df)" "''outstanding'' \<in> set (columns df)"
    and "\<forall>r\<in>set (rows df). is_num (r ''priority_score'') \<and> is_num (r ''outstanding'')"
  shows "threshold_filter df m = Inr (df\<lparr>rows := filter (passes m) (rows df)\<rparr>)"
proof -
  have "passes m = (\<lambda>r. m \<le> num_of (r ''priority_score'') \<and> 0 < num_of (r ''outstanding''))"
    by (auto simp: passes_def)
  then show ?thesis
    using threshold_filter_rows[OF assms, of m] by simp
qed

lemma mock_none_passes:
  assumes "clock_now e \<le> clock_today e" and "clock_today e < clock_now e + day"
    and "22 / 25 < m"
  shows "filter (passes m) (rows (derived_frame e (mock_raw e))) = []"
proof -
  have "\<not> passes m (derived_row e r)" if "r \<in> set (rows (mock_raw e))" for r
  proof -
    have "aging_of e r \<le> 90"
      using assms(1,2) that by (rule mock_aging)
    then have "real_of_int (aging_of e r) \<le> 90" by simp
    then have "priority_score_spec (real_of_int (aging_of e r)) (str_of (r ''payer_name'')) (str_of (r ''status'')) \<le> 22 / 25"
      by (rule score_bound)
    then show ?thesis
      using assms(3) by (simp add: passes_def derived_row_def)
  qed
  then show ?thesis
    by (simp add: derived_frame_def filter_empty_conv)
qed

lemma dashboard_mock_strict:
  assumes "api_key e = None" and "argsort_ok (argsort e)"
    and "clock_now e \<le> clock_today e" and "clock_today e < clock_now e + day"
    and "22 / 25 < min_priority inp"
  shows "dashboard e inp =
     ([Info ''Demo Mode: Using sample healthcare data. Add NIKO_API_KEY to go live.'',
       Metric ''Total AR'' (FloatV 0), Metric ''Open Accounts'' (IntV 0),
       Metric ''Avg DSO (Days)'' NaV, Metric ''Recovery Potential'' (FloatV 0),
       ShowTable \<lparr>columns = display_cols, rows = []\<rparr>],
      Raised (KeyError ''aging_bucket''))"
proof -
  have n: "filter (passes (min_priority inp)) (rows (derived_frame e (mock_raw e))) = []"
    using assms(3,4,5) by (rule mock_none_passes)
  obtain rs where "mset rs = mset (filter (passes (min_priority inp)) (rows (derived_frame e (mock_raw e))))"
    and a: "after_fetch (argsort e) (derived_frame e (mock_raw e)) (min_priority inp) =
          (metrics_of (filter (passes (min_priority inp)) (rows (derived_frame e (mock_raw e))))
             @ [ShowTable \<lparr>columns = display_cols, rows = map display_row (map top_row (take 10 rs))\<rparr>],
           Raised (KeyError ''aging_bucket''))"
    using after_fetch_scored[OF mock_frame_facts assms(2)] by blast
  then have "rs = []" unfolding n by simp
  then show ?thesis
    unfolding dashboard_mock[OF assms(1)] a n
    by (simp add: metrics_of_def)
qed

lemma mock_env_fields:
  "api_key mock_env = None" "argsort mock_env = stable_argsort"
  "clock_now mock_env = 0" "clock_today mock_env = 1"
  by (simp_all add: mock_env_def)


subsection \<open>The scoring formula\<close>

lemma priority_score_spec_range:
  "0 \<le> priority_score_spec a p s \<and> priority_score_spec a p s \<le> 1"
  by (simp add: priority_score_spec_def clamp01_def)

lemma spec_values:
  "payer_risk_spec ''Medicare'' = 0.2" "payer_risk_spec ''Aetna'' = 0.6"
  "risk_boost ''open'' = 0.5" "risk_boost ''denied'' = 1"
  by (simp_all add: payer_risk_spec_def risk_boost_def)

lemma scoring_example_values:
  "map (\<lambda>r. FloatV (priority_score_spec (num_of (r ''aging_days''))
                               (str_of (r ''payer_name'')) (str_of (r ''status'')))) (rows scoring_example)
   = [FloatV (61 / 100), FloatV 1]"
  by (simp add: scoring_example_def row_of_dict_def priority_score_spec_def
        spec_values clamp01_def)

text \<open>
  Claim C1. On a table whose records have a numeric \<^verbatim>\<open>aging_days\<close> and textual
  \<^verbatim>\<open>payer_name\<close> and \<^verbatim>\<open>status\<close>, \<open>calculate_priority\<close> returns for every record the
  score \<open>0.4 * (aging_days / 90) + 0.3 * payer_risk + 0.3 * risk_boost\<close>, clamped once to
  \<open>[0, 1]\<close>; the column \<^verbatim>\<open>payer_risk\<close> it writes is the lookup with default 0.3; and the
  score lies in \<open>[0, 1]\<close> for every input.
\<close>

theorem calculate_priority_formula:
  assumes "''payer_name'' \<in> set (columns df)" "''status'' \<in> set (columns df)"
      "''aging_days'' \<in> set (columns df)"
    and "\<forall>r\<in>set (rows df). is_num (r ''aging_days'') \<and> is_str (r ''payer_name'') \<and> is_str (r ''status'')"
  shows "\<exists>df'. calculate_priority df =
           Inr (df', map (\<lambda>r. FloatV (priority_score_spec (num_of (r ''aging_days''))
                               (str_of (r ''payer_name'')) (str_of (r ''status'')))) (rows df))
         \<and> getcol df' ''payer_risk'' =
             Inr (map (\<lambda>r. FloatV (payer_risk_spec (str_of (r ''payer_name'')))) (rows df))
         \<and> (\<forall>a p s. 0 \<le> priority_score_spec a p s \<and> priority_score_spec a p s \<le> 1)"
  using calculate_priority_rows[OF assms] priority_score_spec_range
  by (simp add: getcol_def o_def)

theorem calculate_priority_formula_witness:
  "map_sum id snd (calculate_priority scoring_example) = Inr [FloatV (61 / 100), FloatV 1]"
proof -
  have "\<forall>r\<in>set (rows scoring_example). is_num (r ''aging_days'') \<and> is_str (r ''payer_name'') \<and> is_str (r ''status'')"
    by (simp add: scoring_example_def row_of_dict_def)
  moreover have "''payer_name'' \<in> set (columns scoring_example)" "''status'' \<in> set (columns scoring_example)"
      "''aging_days'' \<in> set (columns scoring_example)"
    by (simp_all add: scoring_example_def)
  ultimately obtain df' where "calculate_priority scoring_example =
           Inr (df', map (\<lambda>r. FloatV (priority_score_spec (num_of (r ''aging_days''))
                               (str_of (r ''payer_name'')) (str_of (r ''status'')))) (rows scoring_example))"
    using calculate_priority_formula[of scoring_example] by blast
  then show ?thesis
    by (simp add: scoring_example_values)
qed


subsection \<open>Monotonicity in the aging\<close>

lemma priority_score_spec_mono:
  "a1 \<le> a2 \<Longrightarrow> priority_score_spec a1 p s \<le> priority_score_spec a2 p s"
  by (simp add: priority_score_spec_def clamp01_def min_def max_def)

lemma score_input_priority:
  "\<exists>df'. calculate_priority (score_input recs) =
     Inr (df', map (\<lambda>(a, p, s). FloatV (priority_score_spec (real_of_int a) p s)) recs)"
proof -
  let ?df = "score_input recs"
  have 1: "calculate_priority ?df =
     Inr (with_column ?df ''payer_risk'' (\<lambda>r. FloatV (payer_risk_spec (str_of (r ''payer_name'')))),
          map (\<lambda>r. FloatV (priority_score_spec (num_of (r ''aging_days'')) (str_of (r ''payer_name'')) (str_of (r ''status'')))) (rows ?df))"
    by (rule calculate_priority_rows) (auto simp: score_input_def row_of_dict_def)
  have 2: "map (\<lambda>r. FloatV (priority_score_spec (num_of (r ''aging_days'')) (str_of (r ''payer_name'')) (str_of (r ''status'')))) (rows ?df)
     = map (\<lambda>(a, p, s). FloatV (priority_score_spec (real_of_int a) p s)) recs"
    by (auto simp: score_input_def row_of_dict_def)
  show ?thesis unfolding 1 2 by blast
qed

text \<open>
  Claim C9. For fixed payer and status the score does not decrease with the aging: on a
  table of two records that differ only in \<^verbatim>\<open>aging_days\<close>, \<open>a1 \<le> a2\<close>,
  \<open>calculate_priority\<close> returns two scores \<open>x1 \<le> x2\<close>.
\<close>

theorem priority_monotone_in_aging:
  "a1 \<le> a2 \<Longrightarrow>
   \<exists>df' x1 x2. calculate_priority (score_input [(a1, p, s), (a2, p, s)]) = Inr (df', [FloatV x1, FloatV x2])
      \<and> x1 \<le> x2"
  using score_input_priority[of "[(a1, p, s), (a2, p, s)]"]
  by (auto simp: priority_score_spec_mono)

theorem priority_monotone_in_aging_witness:
  "\<exists>df' x1 x2. calculate_priority (score_input [(30, ''Medicare'', ''open''), (60, ''Medicare'', ''open'')])
       = Inr (df', [FloatV x1, FloatV x2]) \<and> x1 \<le> x2"
  using priority_monotone_in_aging[of 30 60 "''Medicare''" "''open''"] by simp


subsection \<open>What the threshold filter keeps\<close>

lemma example_records:
  "raw_record overpaid_record" "raw_record unpaid_record"
  "aging_of mock_env overpaid_record = 45" "aging_of mock_env unpaid_record = 45"
  by (simp_all add: overpaid_record_def unpaid_record_def raw_record_def aging_of_def
        mock_env_def day_def)

lemma example_score: "priority_score_spec 45 ''Medicare'' ''open'' = 41 / 100"
  by (simp add: priority_score_spec_def spec_values clamp01_def)

lemma example_derived:
  "derived_row mock_env overpaid_record ''outstanding'' = FloatV (- 200)"
  "derived_row mock_env unpaid_record ''outstanding'' = FloatV 800"
  "derived_row mock_env overpaid_record ''priority_score'' = FloatV (41 / 100)"
  "derived_row mock_env unpaid_record ''priority_score'' = FloatV (41 / 100)"
  "derived_row mock_env unpaid_record ''invoice_id'' = StrV ''INV-2''"
  by (simp_all add: derived_row_def example_records)
     (simp_all add: overpaid_record_def unpaid_record_def example_score)

lemma overpaid_example_raw:
  "set raw_columns \<subseteq> set (columns overpaid_example)"
  "\<forall>r\<in>set (rows overpaid_example). raw_record r"
  by (simp_all add: overpaid_example_def raw_columns_def example_records)

lemma overpaid_example_passes:
  "filter (passes (3 / 10)) (rows (derived_frame mock_env overpaid_example))
     = [derived_row mock_env unpaid_record]"
  by (simp add: derived_frame_def overpaid_example_def passes_def example_derived)

text \<open>
  Claim C6. On the table with its derived fields (lines 63 to 65), the threshold filter
  (lines 89 and 90) keeps exactly the records with \<open>priority_score \<ge> min_priority\<close> and
  \<open>outstanding > 0\<close>, in their order; a record with \<open>amount_due = 500\<close> and
  \<open>amount_paid = 700\<close> gets \<open>outstanding = -200\<close> and is not kept; the default of the
  threshold is 0.3.
\<close>

theorem threshold_filter_keeps:
  assumes "set raw_columns \<subseteq> set (columns df0)" and "\<forall>r\<in>set (rows df0). raw_record r"
  shows "\<exists>df. derive_fields e df0 = Inr df
          \<and> threshold_filter df m = Inr (df\<lparr>rows := filter (passes m) (rows df)\<rparr>)
          \<and> (\<forall>r\<in>set (rows df0). r ''amount_due'' = FloatV 500 \<and> r ''amount_paid'' = FloatV 700 \<longrightarrow>
                derived_row e r \<in> set (rows df) \<and> derived_row e r ''outstanding'' = FloatV (- 200)
                \<and> derived_row e r \<notin> set (filter (passes m) (rows df)))
          \<and> min_priority_default = 3 / 10"
proof -
  let ?df = "derived_frame e df0"
  have 1: "derive_fields e df0 = Inr ?df"
    by (rule derive_fields_rows[OF assms])
  have 2: "threshold_filter ?df m = Inr (?df\<lparr>rows := filter (passes m) (rows ?df)\<rparr>)"
    unfolding passes_def
    by (rule threshold_filter_rows) (simp_all add: derived_frame_typed derived_columns_def)
  have 3: "derived_row e r \<in> set (rows ?df) \<and> derived_row e r ''outstanding'' = FloatV (- 200)
                \<and> derived_row e r \<notin> set (filter (passes m) (rows ?df))"
    if "r \<in> set (rows df0)" "r ''amount_due'' = FloatV 500" "r ''amount_paid'' = FloatV 700" for r
  proof -
    have a: "derived_row e r \<in> set (rows ?df)"
      using that(1) by (simp add: derived_frame_def)
    have b: "derived_row e r ''outstanding'' = FloatV (- 200)"
      using that(2,3) by (simp add: derived_row_def)
    have "\<not> passes m (derived_row e r)"
      by (simp add: passes_def b)
    with a b show ?thesis by simp
  qed
  show ?thesis
    using 1 2 3 by (auto simp: min_priority_default_def)
qed


theorem threshold_filter_keeps_witness:
  "column_of ''invoice_id''
     (bind_err (derive_fields mock_env overpaid_example) (\<lambda>df. threshold_filter df min_priority_default))
   = Inr [StrV ''INV-2'']"
proof -
  obtain df where d: "derive_fields mock_env overpaid_example = Inr df"
    and f: "threshold_filter df (3 / 10) = Inr (df\<lparr>rows := filter (passes (3 / 10)) (rows df)\<rparr>)"
    and m: "min_priority_default = 3 / 10"
    using threshold_filter_keeps[OF overpaid_example_raw, of mock_env "3 / 10"] by blast
  have df: "df = derived_frame mock_env overpaid_example"
    using d derive_fields_rows[OF overpaid_example_raw, of mock_env] by simp
  have c: "''invoice_id'' \<in> set (columns df)"
    unfolding df by (simp add: overpaid_example_def)
  show ?thesis
    unfolding column_of_def d m
    by (simp add: f getcol_def c) (simp add: df overpaid_example_passes example_derived)
qed


subsection \<open>The mock table\<close>




subsection \<open>Failure of the remote fetch\<close>

text \<open>
  Claim C7. With an API key configured, when the request fails or is answered with a
  status code outside 200 to 299, \<open>fetch_ar_data\<close> returns the empty table as its
  result (it does not raise), and it has sent exactly one request, with a timeout of 20
  seconds.
\<close>

theorem remote_failure_empty:
  assumes "api_key e = Some k" and "failed_or_non_2xx (http_get e (api_request k s d))"
  shows "table (fetch_ar_data e s d) = Inr empty_frame
       \<and> df_empty empty_frame
       \<and> sent (fetch_ar_data e s d) = [api_request k s d]
       \<and> timeout (api_request k s d) = 20"
  using assms
  by (auto simp: fetch_ar_data_def fetch_real_def Let_def failed_or_non_2xx_def df_empty_def
      empty_frame_def api_request_def split: http_result.splits)

theorem remote_failure_empty_witness:
  "table (fetch_ar_data offline_env 10 100) = Inr empty_frame
     \<and> length (sent (fetch_ar_data offline_env 10 100)) = 1"
proof -
  have "api_key offline_env = Some ''key''"
    by (simp add: offline_env_def remote_env_def)
  moreover have "failed_or_non_2xx (http_get offline_env (api_request ''key'' 10 100))"
    by (simp add: offline_env_def remote_env_def failed_or_non_2xx_def)
  ultimately show ?thesis
    using remote_failure_empty[of offline_env "''key''" 10 100] by simp
qed


subsection \<open>The placeholder denial risk\<close>

text \<open>
  Claim C10. With an API key configured, in every fetch that returns a table with
  records, each record whose status is not \<^verbatim>\<open>denied\<close> has the same \<^verbatim>\<open>denial_risk\<close>, the
  one value \<open>uniform 0.1 0.8\<close> of the first random draw, which lies in \<open>[0.1, 0.8]\<close>, and
  each record whose status is \<^verbatim>\<open>denied\<close> has \<^verbatim>\<open>denial_risk\<close> 1.
\<close>

theorem denial_risk_broadcast:
  assumes "api_key e = Some k" and "table (fetch_ar_data e s d) = Inr df" and "\<not> df_empty df"
    and "0 \<le> rng e 0" and "rng e 0 < 1"
  shows "(\<forall>r\<in>set (rows df). r ''denial_risk'' =
            FloatV (if r ''status'' = StrV ''denied'' then 1 else uniform 0.1 0.8 (rng e 0)))
       \<and> 0.1 \<le> uniform 0.1 0.8 (rng e 0) \<and> uniform 0.1 0.8 (rng e 0) \<le> 0.8"
proof -
  have "table (fetch_real e k s d) = Inr df"
    using assms(1,2) by (simp add: fetch_ar_data_def)
  then obtain df1 where "add_denial_risk e df1 = Inr df"
    using fetch_real_nonempty[OF _ assms(3)] by blast
  then have "df = with_column df1 ''denial_risk''
     (\<lambda>r. FloatV (if r ''status'' = StrV ''denied'' then 1 else uniform 0.1 0.8 (rng e 0)))"
    by (rule add_denial_risk_rows)
  then have "\<forall>r\<in>set (rows df). r ''denial_risk'' =
            FloatV (if r ''status'' = StrV ''denied'' then 1 else uniform 0.1 0.8 (rng e 0))"
    by simp
  moreover have "0.1 \<le> uniform 0.1 0.8 (rng e 0) \<and> uniform 0.1 0.8 (rng e 0) \<le> 0.8"
    using assms(4,5) by (simp add: uniform_def)
  ultimately show ?thesis by simp
qed

theorem denial_risk_broadcast_witness:
  "column_of ''denial_risk'' (table (fetch_ar_data remote_env 10 100)) = Inr [FloatV 1, FloatV (9 / 20)]"
proof -
  have t: "table (fetch_ar_data remote_env 10 100) = Inr remote_table"
    by (simp add: remote_fetch_result)
  have u: "uniform 0.1 0.8 (rng remote_env 0) = 9 / 20"
    by (simp add: uniform_def remote_env_fields)
  have g: "0 \<le> rng remote_env 0" "rng remote_env 0 < 1"
    by (simp_all add: remote_env_fields)
  have "\<forall>r\<in>set (rows remote_table). r ''denial_risk'' =
            FloatV (if r ''status'' = StrV ''denied'' then 1 else uniform 0.1 0.8 (rng remote_env 0))"
    using denial_risk_broadcast[OF remote_env_fields(1) t remote_table_facts(3) g]
    by (rule conjunct1)
  then have "\<forall>r\<in>set (rows remote_table). r ''denial_risk'' =
            FloatV (if r ''status'' = StrV ''denied'' then 1 else 9 / 20)"
    unfolding u .
  then have "map (\<lambda>r. r ''denial_risk'') (rows remote_table)
      = map (\<lambda>c. FloatV (if c = StrV ''denied'' then 1 else 9 / 20)) (map (\<lambda>r. r ''status'') (rows remote_table))"
    by (simp add: o_def)
  then show ?thesis
    unfolding remote_table_facts(2) by (simp add: column_of_def t getcol_def remote_table_facts(1))
qed


subsection \<open>The derived fields in remote mode\<close>

text \<open>
  Claim C3 says that the records of either data source get all derived fields before
  the filter reads the table. In mock mode they do (\<open>fetch_mock_table\<close>). In remote mode
  the fetch adds only \<^verbatim>\<open>aging_days\<close> and \<^verbatim>\<open>denial_risk\<close>: on an answer with two payments the
  run shows nothing and ends at line 89 with \<^verbatim>\<open>KeyError: 'priority_score'\<close>.
\<close>

theorem remote_run_raises:
  "dashboard remote_env default_inputs = ([], Raised (KeyError ''priority_score''))"
proof -
  have f: "threshold_filter remote_table m = Inl (KeyError ''priority_score'')" for m
    by (rule threshold_filter_no_score) (simp add: remote_table_facts)
  show ?thesis
    by (simp add: dashboard_def default_inputs_def Let_def remote_fetch_result after_fetch_def
        remote_table_facts f)
qed


subsection \<open>The aging breakdown\<close>

text \<open>The buckets are open on the left: a record due today has none.\<close>

lemma bucket_label_zero: "bucket_label 0 = NaV"
  by (simp add: bucket_label_def)

text \<open>
  Claim C2 says that the aging aggregation sums \<^verbatim>\<open>outstanding\<close> per \<^verbatim>\<open>aging_bucket\<close> over the
  filtered table. The code assigns \<^verbatim>\<open>aging_bucket\<close> at line 114 to the copy that holds the
  top ten, not to the filtered table that line 125 groups: in every run without API key,
  whatever the threshold, the run ends at line 125 with \<^verbatim>\<open>KeyError: 'aging_bucket'\<close> and
  no aggregation is computed.
\<close>

theorem aging_pivot_missing_column:
  assumes "api_key e = None" and "argsort_ok (argsort e)"
  shows "snd (dashboard e inp) = Raised (KeyError ''aging_bucket'')"
proof -
  obtain rs where "after_fetch (argsort e) (derived_frame e (mock_raw e)) (min_priority inp) =
          (metrics_of (filter (passes (min_priority inp)) (rows (derived_frame e (mock_raw e))))
             @ [ShowTable \<lparr>columns = display_cols, rows = map display_row (map top_row (take 10 rs))\<rparr>],
           Raised (KeyError ''aging_bucket''))"
    using after_fetch_scored[OF mock_frame_facts assms(2)] by blast
  then show ?thesis
    by (simp add: dashboard_mock[OF assms(1)])
qed

theorem aging_pivot_missing_column_witness:
  "snd (dashboard mock_env default_inputs) = Raised (KeyError ''aging_bucket'')"
proof -
  have "api_key mock_env = None" "argsort mock_env = stable_argsort"
    by (simp_all add: mock_env_def)
  then show ?thesis
    using aging_pivot_missing_column[of mock_env default_inputs] stable_argsort_ok by simp
qed


subsection \<open>The empty-table guard\<close>

text \<open>
  Claim C4, as the code has it. The guard of lines 85 to 87 reads the fetched table,
  before the threshold filter: whenever the fetched table is empty, the run shows the
  warning \<^verbatim>\<open>No data in range. Adjust filters.\<close> after what the fetch showed and stops,
  without raising and without showing any metric.
\<close>

theorem empty_fetch_stops:
  assumes "table (fetch_ar_data e (start_date inp) (end_date inp)) = Inr df" and "df_empty df"
  shows "dashboard e inp =
           (shown (fetch_ar_data e (start_date inp) (end_date inp))
              @ [WarningMsg ''No data in range. Adjust filters.''], Stopped)
         \<and> \<not> list_ex is_metric (fst (dashboard e inp))"
proof -
  have d: "dashboard e inp =
           (shown (fetch_ar_data e (start_date inp) (end_date inp))
              @ [WarningMsg ''No data in range. Adjust filters.''], Stopped)"
    using assms by (simp add: dashboard_def Let_def after_fetch_def)
  moreover have "\<not> list_ex is_metric (fst (dashboard e inp))"
    unfolding d using fetch_shows_no_metric[of e "start_date inp" "end_date inp"]
    by (simp add: is_metric_def)
  ultimately show ?thesis by simp
qed

theorem empty_fetch_stops_witness:
  "dashboard offline_env default_inputs =
     ([ErrorMsg ''Connection issue: timed out'', WarningMsg ''No data in range. Adjust filters.''],
      Stopped)"
proof -
  have "table (fetch_ar_data offline_env (start_date default_inputs) (end_date default_inputs)) = Inr empty_frame"
    by (simp add: offline_fetch)
  moreover have "df_empty empty_frame"
    by (simp add: df_empty_def empty_frame_def)
  ultimately show ?thesis
    using empty_fetch_stops[of offline_env default_inputs empty_frame]
    by (simp add: offline_fetch)
qed


text \<open>
  Claim C4 as stated puts the guard after the filter. In the run without API key with
  the threshold at 0.9, the fetched table has 91 records and none passes the filter; the
  run does not stop: it shows the four metrics computed over the empty filtered table
  (the mean of \<^verbatim>\<open>aging_days\<close> is \<^verbatim>\<open>NaN\<close>) and an empty table, and ends at line 125 with an
  exception.
\<close>

theorem empty_filter_counterexample:
  "map_sum id (\<lambda>df. length (rows df)) (table (fetch_ar_data mock_env 10 100)) = Inr 91
   \<and> map_sum id rows (filtered_table mock_env strict_inputs) = Inr []
   \<and> dashboard mock_env strict_inputs =
     ([Info ''Demo Mode: Using sample healthcare data. Add NIKO_API_KEY to go live.'',
       Metric ''Total AR'' (FloatV 0), Metric ''Open Accounts'' (IntV 0),
       Metric ''Avg DSO (Days)'' NaV, Metric ''Recovery Potential'' (FloatV 0),
       ShowTable \<lparr>columns = display_cols, rows = []\<rparr>],
      Raised (KeyError ''aging_bucket''))"
proof -
  let ?df = "derived_frame mock_env (mock_raw mock_env)"
  have t: "table (fetch_ar_data mock_env s d) = Inr ?df" for s d
    by (simp add: fetch_ar_data_def mock_env_fields fetch_mock_table)
  have c: "clock_now mock_env \<le> clock_today mock_env" "clock_today mock_env < clock_now mock_env + day"
    by (simp_all add: mock_env_fields day_def)
  have m: "22 / 25 < min_priority strict_inputs"
    by (simp add: strict_inputs_def)
  have 1: "map_sum id (\<lambda>df. length (rows df)) (table (fetch_ar_data mock_env 10 100)) = Inr 91"
    by (simp add: t derived_frame_def mock_raw_length)
  have s: "\<forall>r\<in>set (rows ?df). is_num (r ''priority_score'') \<and> is_num (r ''outstanding'')"
    using derived_frame_typed[of mock_env "mock_raw mock_env"] by simp
  have f: "threshold_filter ?df (min_priority strict_inputs)
      = Inr (?df\<lparr>rows := filter (passes (min_priority strict_inputs)) (rows ?df)\<rparr>)"
    by (rule threshold_filter_passes[OF _ _ s]) (simp_all add: derived_columns_def)
  have 2: "map_sum id rows (filtered_table mock_env strict_inputs) = Inr []"
    unfolding filtered_table_def t
    by (simp add: f mock_none_passes[OF c m])
  have ok: "argsort_ok (argsort mock_env)"
    by (simp add: mock_env_fields stable_argsort_ok)
  from 1 2 dashboard_mock_strict[OF mock_env_fields(1) ok c m] show ?thesis
    by simp
qed


end
